theory Spec2Isabelle
  imports Main "HOL-Library.Word"
begin

section \<open>Outcomes of a C call\<close>

text \<open>
  The functions of \<^verbatim>\<open>src/src/ds3.c\<close> are embedded as HOL functions. A C call either
  returns, or it runs into undefined behaviour: \<^verbatim>\<open>strlen(NULL)\<close>,
  \<^verbatim>\<open>strtoul(NULL, ...)\<close>, reading a variable that was never written. The second
  outcome is a value of its own, so that every such place of the source is a branch of
  the model.
\<close>

datatype 'a exec = Returns 'a | Undefined_Behaviour

section \<open>The C library and GLib string functions the source calls\<close>

text \<open>
  A C string (\<^verbatim>\<open>char*\<close>) is a \<^typ>\<open>string option\<close>: \<open>None\<close> is
  \<^verbatim>\<open>NULL\<close>, \<open>Some s\<close> the bytes before the terminating NUL. The functions
  below follow the documentation of GLib and of the C library.
\<close>

text \<open>\<^verbatim>\<open>g_strconcat(s1, ..., NULL)\<close>: the arguments up to the first \<^verbatim>\<open>NULL\<close>,
  concatenated.\<close>

fun g_strconcat :: "string option list \<Rightarrow> string" where
  "g_strconcat [] = []"
| "g_strconcat (None # rest) = []"
| "g_strconcat (Some s # rest) = s @ g_strconcat rest"

text \<open>\<^verbatim>\<open>g_ascii_isspace\<close>: space, tab, line feed, form feed, carriage return.\<close>

definition g_ascii_isspace :: "char \<Rightarrow> bool" where
  "g_ascii_isspace c =
     (c = CHR '' '' \<or> c = CHR 0x09 \<or> c = CHR 0x0A \<or> c = CHR 0x0C \<or> c = CHR 0x0D)"

text \<open>\<^verbatim>\<open>isspace\<close> of the C locale: as above, and the vertical tab.\<close>

definition isspace :: "char \<Rightarrow> bool" where
  "isspace c = (g_ascii_isspace c \<or> c = CHR 0x0B)"

text \<open>\<^verbatim>\<open>g_strchomp\<close> removes the trailing white space.\<close>

definition g_strchomp :: "string \<Rightarrow> string" where
  "g_strchomp s = rev (dropWhile g_ascii_isspace (rev s))"

text \<open>\<^verbatim>\<open>strncpy(dst, src, n)\<close> into a zeroed buffer of \<open>n + 1\<close> bytes, read back as
  a C string: the first \<open>n\<close> bytes of the source, up to its first NUL.\<close>

definition strncpy :: "string \<Rightarrow> nat \<Rightarrow> string" where
  "strncpy src n = takeWhile (\<lambda>c. c \<noteq> CHR 0x00) (take n src)"

definition g_str_has_prefix :: "string \<Rightarrow> string \<Rightarrow> bool" where
  "g_str_has_prefix s p = (take (length p) s = p)"

text \<open>\<^verbatim>\<open>strncmp(a, b, n) == 0\<close> on C strings: the first \<open>n\<close> bytes agree.\<close>

definition strncmp_eq :: "string \<Rightarrow> string \<Rightarrow> nat \<Rightarrow> bool" where
  "strncmp_eq a b n = (take n a = take n b)"

text \<open>\<^verbatim>\<open>strstr\<close>, returning the text before the first occurrence of the delimiter and
  the text after it.\<close>

fun strstr_split :: "string \<Rightarrow> string \<Rightarrow> (string \<times> string) option" where
  "strstr_split d [] = (if d = [] then Some ([], []) else None)"
| "strstr_split d (c # cs) =
     (if take (length d) (c # cs) = d then Some ([], drop (length d) (c # cs))
      else (case strstr_split d cs of
              None \<Rightarrow> None
            | Some (before, after) \<Rightarrow> Some (c # before, after)))"

text \<open>
  \<^verbatim>\<open>g_strsplit(string, delimiter, max_tokens)\<close>: the loop
  \<^verbatim>\<open>while (--max_tokens && s)\<close> cuts a token at each occurrence of the delimiter, at
  most \<open>max_tokens - 1\<close> times; the rest of the string is the last token. Splitting the
  empty string gives no token at all.
\<close>

fun strsplit_loop :: "string \<Rightarrow> nat \<Rightarrow> string \<Rightarrow> string list" where
  "strsplit_loop d 0 remainder = [remainder]"
| "strsplit_loop d (Suc n) remainder =
     (case strstr_split d remainder of
        None \<Rightarrow> [remainder]
      | Some (tok, rest) \<Rightarrow> tok # strsplit_loop d n rest)"

definition g_strsplit :: "string \<Rightarrow> string \<Rightarrow> nat \<Rightarrow> string list" where
  "g_strsplit s d max_tokens = (if s = [] then [] else strsplit_loop d (max_tokens - 1) s)"

text \<open>\<^verbatim>\<open>g_strjoinv(separator, str_array)\<close>.\<close>

fun g_strjoinv :: "string \<Rightarrow> string list \<Rightarrow> string" where
  "g_strjoinv sep [] = []"
| "g_strjoinv sep [s] = s"
| "g_strjoinv sep (s # t # ts) = s @ sep @ g_strjoinv sep (t # ts)"

text \<open>Reading entry \<open>i\<close> of a \<^verbatim>\<open>NULL\<close>-terminated string vector: the entry after the
  last token is \<^verbatim>\<open>NULL\<close>.\<close>

definition strv_nth :: "string list \<Rightarrow> nat \<Rightarrow> string option" where
  "strv_nth v i = (if i < length v then Some (v ! i) else None)"

subsection \<open>Decimal numbers\<close>

definition isdigit :: "char \<Rightarrow> bool" where
  "isdigit c = (48 \<le> (of_char c :: int) \<and> (of_char c :: int) \<le> 57)"

definition digit_of :: "char \<Rightarrow> int" where
  "digit_of c = of_char c - 48"

definition char_of_digit :: "int \<Rightarrow> char" where
  "char_of_digit d = char_of (48 + d)"

text \<open>The value of a run of decimal digits, most significant first.\<close>

definition digits_value :: "string \<Rightarrow> int" where
  "digits_value ds = foldl (\<lambda>acc c. 10 * acc + digit_of c) 0 ds"

text \<open>The sign a number may start with, and the text after it.\<close>

fun strip_sign :: "string \<Rightarrow> bool \<times> string" where
  "strip_sign [] = (False, [])"
| "strip_sign (c # cs) =
     (if c = CHR ''-'' then (True, cs)
      else if c = CHR ''+'' then (False, cs)
      else (False, c # cs))"

text \<open>
  \<^verbatim>\<open>g_ascii_strtoll(nptr, &endptr, 10)\<close>: white space (here GLib skips the six
  characters of the C locale), a sign, decimal digits; the result is a
  \<^verbatim>\<open>gint64\<close>, clamped to its range; with no digit the result is 0.
\<close>

definition g_ascii_strtoll :: "string \<Rightarrow> int" where
  "g_ascii_strtoll nptr =
     (let (negative, s) = strip_sign (dropWhile isspace nptr);
          v = digits_value (takeWhile isdigit s)
      in if negative then max (- (2 ^ 63)) (- v) else min (2 ^ 63 - 1) v)"

text \<open>
  \<^verbatim>\<open>strtoul(nptr, NULL, 10)\<close> with a 64-bit \<^verbatim>\<open>unsigned long\<close>: white space, a
  sign, decimal digits. A magnitude beyond the type gives \<^verbatim>\<open>ULONG_MAX\<close>; a minus
  sign negates the magnitude in the unsigned type.
\<close>

definition strtoul :: "string \<Rightarrow> 64 word" where
  "strtoul nptr =
     (let (negative, s) = strip_sign (dropWhile isspace nptr);
          v = digits_value (takeWhile isdigit s)
      in if 2 ^ 64 \<le> v then - 1
         else if negative then - (word_of_int v) else word_of_int v)"

text \<open>The decimal digits of a number that is not negative.\<close>

function decimal :: "int \<Rightarrow> string" where
  "decimal n =
     (if n < 10 then [char_of_digit n]
      else decimal (n div 10) @ [char_of_digit (n mod 10)])"
  by pat_completeness auto
termination
  by (relation "measure nat") auto

declare decimal.simps [simp del]

text \<open>
  \<^verbatim>\<open>g_snprintf(buf, 21, "%ld", x)\<close> for a \<^verbatim>\<open>uint64_t x\<close>: the conversion reads
  the 64 bits as a signed \<^verbatim>\<open>long\<close>; the buffer keeps at most 20 bytes.
\<close>

definition snprintf_ld :: "64 word \<Rightarrow> string" where
  "snprintf_ld x =
     take 20 (if sint x < 0 then CHR ''-'' # decimal (- sint x) else decimal (sint x))"

section \<open>The header stream parser\<close>

text \<open>
  \<^verbatim>\<open>ds3_response_data\<close>. The \<^verbatim>\<open>GHashTable\<close> of headers compares its keys as
  strings; it is an association list, one entry per key. The fields
  \<^verbatim>\<open>status_message_size\<close>, \<^verbatim>\<open>key_size\<close> and \<^verbatim>\<open>value_size\<close> hold the
  \<^verbatim>\<open>strlen\<close> of their strings and are not repeated here; the \<^verbatim>\<open>strlen\<close>
  calls that compute them are, since they fail on \<^verbatim>\<open>NULL\<close>. The counter
  \<^verbatim>\<open>header_count\<close> only counts up, one per line; it is a natural number. The field
  \<open>freed_keys\<close> is not a field of the C structure: it lists the header names whose
  key string, the one the table holds, has been freed (see below).
\<close>

record ds3_response_data =
  status_code :: "64 word"
  status_message :: "string option"
  header_count :: nat
  headers :: "(string \<times> string) list"
  freed_keys :: "string list"

text \<open>\<^verbatim>\<open>memset(&response_data, 0, sizeof(ds3_response_data))\<close> and the new, empty table.\<close>

definition response_data_init :: ds3_response_data where
  "response_data_init =
     \<lparr>status_code = 0, status_message = None, header_count = 0, headers = [],
      freed_keys = []\<rparr>"

text \<open>\<^verbatim>\<open>g_hash_table_insert\<close> on a table without destroy functions, as the tables of a
  request are: the entry of an existing key is replaced.\<close>

fun g_hash_table_insert :: "(string \<times> 'v) list \<Rightarrow> string \<Rightarrow> 'v \<Rightarrow> (string \<times> 'v) list" where
  "g_hash_table_insert [] k v = [(k, v)]"
| "g_hash_table_insert ((k', v') # rest) k v =
     (if k' = k then (k, v) # rest else (k', v') # g_hash_table_insert rest k v)"

text \<open>
  \<^verbatim>\<open>g_str_hash\<close>: \<open>h = 5381\<close>, then \<open>h = (h << 5) + h + c\<close> for every byte, read as
  a \<^verbatim>\<open>signed char\<close>, in 32 bits. The table keeps the values 0 and 1 for its own use
  and takes 2 for them.
\<close>

definition g_str_hash :: "string \<Rightarrow> 32 word" where
  "g_str_hash s =
     foldl (\<lambda>h c. push_bit 5 h + h +
                   word_of_int (if (of_char c :: int) < 128 then of_char c
                                else of_char c - 256))
       5381 s"

definition table_hash :: "string \<Rightarrow> 32 word" where
  "table_hash s = (if g_str_hash s < 2 then 2 else g_str_hash s)"

text \<open>
  \<^verbatim>\<open>g_hash_table_insert(headers, header->key, header)\<close> on the table of response
  headers, which was made with \<^verbatim>\<open>_ds3_free_response_header\<close> as the destroy function
  of its values and none for its keys. When the name is in the table already, the table
  keeps the key string it holds and replaces the value; the old value is destroyed, and
  with it \<^verbatim>\<open>header->key\<close> of the old header, which is the very string the table
  holds as its key. From then on the table holds a freed key. The next insertion whose
  name has the same hash compares its key with the freed one (\<^verbatim>\<open>g_str_equal\<close>):
  undefined behaviour.
\<close>

definition response_header_insert ::
  "ds3_response_data \<Rightarrow> string \<Rightarrow> string \<Rightarrow> ds3_response_data exec" where
  "response_header_insert response_data key val =
     (if table_hash key \<in> table_hash ` set (freed_keys response_data)
      then Undefined_Behaviour
      else if key \<in> fst ` set (headers response_data)
      then Returns (response_data
                      \<lparr>headers := g_hash_table_insert (headers response_data) key val,
                       freed_keys := key # freed_keys response_data\<rparr>)
      else Returns (response_data
                      \<lparr>headers := g_hash_table_insert (headers response_data) key val\<rparr>))"

text \<open>
  \<^verbatim>\<open>_process_header_line(buffer, size, nmemb, user_data)\<close>. The argument is the
  \<open>size * nmemb\<close> bytes the transport hands over; the result is the returned count and
  the response data after the call.
\<close>

definition process_header_line ::
  "string \<Rightarrow> ds3_response_data \<Rightarrow> (nat \<times> ds3_response_data) exec" where
  "process_header_line buffer response_data =
     (let to_read = length buffer in
      if to_read < 2 then Returns (0, response_data)
      else
        let header_buff = g_strchomp (strncpy buffer to_read) in
        if length header_buff = 0 then Returns (to_read, response_data)
        else if header_count response_data < 1 then
          (if g_str_has_prefix header_buff ''HTTP/1.1'' then
             (let split_result = g_strsplit header_buff '' '' 1000 in
              case strv_nth split_result 1 of
                None \<Rightarrow> Undefined_Behaviour
              | Some code_str \<Rightarrow>
                  let status :: 64 word = word_of_int (g_ascii_strtoll code_str) in
                  if status = 0 then Returns (0, response_data)
                  else if status = 100 then Returns (to_read, response_data)
                  else Returns (to_read,
                         response_data
                           \<lparr>status_code := status,
                            status_message := Some (g_strjoinv '' '' (drop 2 split_result)),
                            header_count := header_count response_data + 1\<rparr>))
           else Returns (0, response_data))
        else
          (let split_result = g_strsplit header_buff '': '' 2 in
           case strv_nth split_result 0 of
             None \<Rightarrow> Undefined_Behaviour
           | Some key \<Rightarrow>
               (case strv_nth split_result 1 of
                  None \<Rightarrow> Undefined_Behaviour
                | Some val \<Rightarrow>
                    (case response_header_insert response_data key val of
                       Undefined_Behaviour \<Rightarrow> Undefined_Behaviour
                     | Returns inserted \<Rightarrow>
                         Returns (to_read,
                           inserted\<lparr>header_count := header_count inserted + 1\<rparr>)))))"

text \<open>
  The transport calls the header function once per header line and stops the transfer
  as soon as a call returns another count than the one it handed over. The result is
  the data after the last line, and whether every line was accepted.
\<close>

fun feed_header_lines ::
  "string list \<Rightarrow> ds3_response_data \<Rightarrow> (bool \<times> ds3_response_data) exec" where
  "feed_header_lines [] response_data = Returns (True, response_data)"
| "feed_header_lines (line # rest) response_data =
     (case process_header_line line response_data of
        Undefined_Behaviour \<Rightarrow> Undefined_Behaviour
      | Returns (taken, response_data') \<Rightarrow>
          if taken = length line then feed_header_lines rest response_data'
          else Returns (False, response_data'))"

text \<open>
  The reading of the sentence on status messages as the specification words it: the
  tokens of the line are its maximal runs of characters that are not white space, and
  the message is the tokens after the second, joined by single spaces.
\<close>

fun whitespace_tokens :: "string \<Rightarrow> string \<Rightarrow> string list" where
  "whitespace_tokens cur [] = (if cur = [] then [] else [cur])"
| "whitespace_tokens cur (c # cs) =
     (if g_ascii_isspace c
      then (if cur = [] then whitespace_tokens [] cs else cur # whitespace_tokens [] cs)
      else whitespace_tokens (cur @ [c]) cs)"

definition spec_status_message :: "string \<Rightarrow> string" where
  "spec_status_message line = g_strjoinv '' '' (drop 2 (whitespace_tokens [] line))"

section \<open>XML documents\<close>

text \<open>
  The tree libxml2 hands to the program: an element has a name, attributes and
  children; an attribute has a name and children (the text of its content); a text node
  has its content and the name \<^verbatim>\<open>text\<close>. The text of an element is a child text
  node.
\<close>

datatype xmlNode =
    XML_ELEMENT_NODE string "(string \<times> xmlNode list) list" "xmlNode list"
  | XML_TEXT_NODE string

type_synonym xmlAttr = "string \<times> xmlNode list"

fun node_name :: "xmlNode \<Rightarrow> string" where
  "node_name (XML_ELEMENT_NODE n ps cs) = n"
| "node_name (XML_TEXT_NODE t) = ''text''"

fun properties :: "xmlNode \<Rightarrow> xmlAttr list" where
  "properties (XML_ELEMENT_NODE n ps cs) = ps"
| "properties (XML_TEXT_NODE t) = []"

fun xmlChildrenNode :: "xmlNode \<Rightarrow> xmlNode list" where
  "xmlChildrenNode (XML_ELEMENT_NODE n ps cs) = cs"
| "xmlChildrenNode (XML_TEXT_NODE t) = []"

fun text_content :: "xmlNode \<Rightarrow> string option" where
  "text_content (XML_TEXT_NODE t) = Some t"
| "text_content (XML_ELEMENT_NODE n ps cs) = None"

text \<open>
  \<^verbatim>\<open>xmlNodeListGetString(doc, list, 1)\<close>: the contents of the text nodes of the list,
  concatenated; \<^verbatim>\<open>NULL\<close> when the list holds no text node. (References to
  entities that a document declares for itself are not part of the tree here.)
\<close>

definition xmlNodeListGetString :: "xmlNode list \<Rightarrow> string option" where
  "xmlNodeListGetString nodes =
     (let texts = List.map_filter text_content nodes
      in if texts = [] then None else Some (concat texts))"

definition xmlNewNode :: "string \<Rightarrow> xmlNode" where
  "xmlNewNode n = XML_ELEMENT_NODE n [] []"

fun xmlAddChild :: "xmlNode \<Rightarrow> xmlNode \<Rightarrow> xmlNode" where
  "xmlAddChild (XML_ELEMENT_NODE n ps cs) child = XML_ELEMENT_NODE n ps (cs @ [child])"
| "xmlAddChild (XML_TEXT_NODE t) child = XML_TEXT_NODE t"

text \<open>\<^verbatim>\<open>xmlSetProp(node, name, value)\<close>: the attribute's content is one text node holding
  the value, and nothing for a \<^verbatim>\<open>NULL\<close> value; an attribute of that name is
  replaced.\<close>

definition attr_children :: "string option \<Rightarrow> xmlNode list" where
  "attr_children v = (case v of None \<Rightarrow> [] | Some s \<Rightarrow> [XML_TEXT_NODE s])"

fun xmlSetProp :: "xmlNode \<Rightarrow> string \<Rightarrow> string option \<Rightarrow> xmlNode" where
  "xmlSetProp (XML_ELEMENT_NODE n ps cs) a v =
     XML_ELEMENT_NODE n
       (if a \<in> fst ` set ps
        then map (\<lambda>(a', c'). if a' = a then (a', attr_children v) else (a', c')) ps
        else ps @ [(a, attr_children v)]) cs"
| "xmlSetProp (XML_TEXT_NODE t) a v = XML_TEXT_NODE t"

text \<open>A loop over a list of nodes or attributes that carries a state and may run into
  undefined behaviour.\<close>

fun exec_fold :: "('a \<Rightarrow> 's \<Rightarrow> 's exec) \<Rightarrow> 'a list \<Rightarrow> 's \<Rightarrow> 's exec" where
  "exec_fold f [] s = Returns s"
| "exec_fold f (x # xs) s =
     (case f x s of
        Undefined_Behaviour \<Rightarrow> Undefined_Behaviour
      | Returns s' \<Rightarrow> exec_fold f xs s')"

section \<open>Errors and decoded responses\<close>

datatype ds3_error_code =
    DS3_ERROR_INVALID_XML
  | DS3_ERROR_CURL_HANDLE
  | DS3_ERROR_FAILED_REQUEST
  | DS3_ERROR_MISSING_ARGS

record ds3_error =
  code :: ds3_error_code
  message :: string

definition ds3_create_error :: "ds3_error_code \<Rightarrow> string \<Rightarrow> ds3_error" where
  "ds3_create_error c m = \<lparr>code = c, message = m\<rparr>"

record ds3_owner =
  owner_name :: "string option"
  owner_id :: "string option"

record ds3_bucket =
  bucket_creation_date :: "string option"
  bucket_name :: "string option"

record ds3_get_service_response =
  buckets :: "ds3_bucket list"
  owner :: "ds3_owner option"

record ds3_object =
  object_name :: "string option"
  etag :: "string option"
  last_modified :: "string option"
  storage_class :: "string option"
  object_size :: "64 word"
  object_owner :: "ds3_owner option"

record ds3_get_bucket_response =
  objects :: "ds3_object list"
  creation_date :: "string option"
  is_truncated :: bool
  marker :: "string option"
  delimiter :: "string option"
  max_keys :: "64 word"
  name :: "string option"
  next_marker :: "string option"
  prefix :: "string option"

record ds3_bulk_object =
  bulk_object_name :: "string option"
  bulk_object_size :: "64 word"

text \<open>\<^verbatim>\<open>ds3_bulk_object_list\<close>: the array \<^verbatim>\<open>list\<close> with its length \<^verbatim>\<open>size\<close> is a
  HOL list.\<close>

record ds3_bulk_object_list =
  bulk_objects :: "ds3_bulk_object list"
  server_id :: "string option"
  chunk_number :: "64 word"

record ds3_bulk_response =
  job_id :: "string option"
  bulk_lists :: "ds3_bulk_object_list list"

subsection \<open>Service listing\<close>

text \<open>The body of the inner loop of \<^verbatim>\<open>_parse_buckets\<close>: one child of a bucket
  element. \<^verbatim>\<open>strlen((char*) text)\<close> is called without a check of \<^verbatim>\<open>text\<close>.\<close>

definition parse_bucket_child :: "xmlNode \<Rightarrow> ds3_bucket \<Rightarrow> ds3_bucket exec" where
  "parse_bucket_child data_ptr bucket =
     (if node_name data_ptr = ''CreationDate'' then
        (case xmlNodeListGetString (xmlChildrenNode data_ptr) of
           None \<Rightarrow> Undefined_Behaviour
         | Some t \<Rightarrow> Returns (bucket\<lparr>bucket_creation_date := Some t\<rparr>))
      else if node_name data_ptr = ''Name'' then
        (case xmlNodeListGetString (xmlChildrenNode data_ptr) of
           None \<Rightarrow> Undefined_Behaviour
         | Some t \<Rightarrow> Returns (bucket\<lparr>bucket_name := Some t\<rparr>))
      else Returns bucket)"

text \<open>\<^verbatim>\<open>_parse_buckets\<close>: every child of the \<^verbatim>\<open>Buckets\<close> node gives one bucket,
  whatever its name.\<close>

definition parse_buckets ::
  "xmlNode \<Rightarrow> ds3_get_service_response \<Rightarrow> ds3_get_service_response exec" where
  "parse_buckets buckets_node response =
     (case exec_fold
        (\<lambda>curr array.
           case exec_fold parse_bucket_child (xmlChildrenNode curr)
                  \<lparr>bucket_creation_date = None, bucket_name = None\<rparr> of
             Undefined_Behaviour \<Rightarrow> Undefined_Behaviour
           | Returns bucket \<Rightarrow> Returns (array @ [bucket]))
        (xmlChildrenNode buckets_node) [] of
        Undefined_Behaviour \<Rightarrow> Undefined_Behaviour
      | Returns array \<Rightarrow> Returns (response\<lparr>buckets := array\<rparr>))"

definition parse_owner_child :: "xmlNode \<Rightarrow> ds3_owner \<Rightarrow> ds3_owner exec" where
  "parse_owner_child child_node own =
     (if node_name child_node = ''DisplayName'' then
        (case xmlNodeListGetString (xmlChildrenNode child_node) of
           None \<Rightarrow> Undefined_Behaviour
         | Some t \<Rightarrow> Returns (own\<lparr>owner_name := Some t\<rparr>))
      else if node_name child_node = ''ID'' then
        (case xmlNodeListGetString (xmlChildrenNode child_node) of
           None \<Rightarrow> Undefined_Behaviour
         | Some t \<Rightarrow> Returns (own\<lparr>owner_id := Some t\<rparr>))
      else Returns own)"

definition parse_owner :: "xmlNode \<Rightarrow> ds3_owner exec" where
  "parse_owner owner_node =
     exec_fold parse_owner_child (xmlChildrenNode owner_node)
       \<lparr>owner_name = None, owner_id = None\<rparr>"

text \<open>
  The bytes of a response body are collected in a \<^verbatim>\<open>GByteArray\<close>
  (\<^verbatim>\<open>g_byte_array_new\<close>, \<^verbatim>\<open>g_byte_array_append\<close>), whose \<^verbatim>\<open>data\<close> pointer is
  \<^verbatim>\<open>NULL\<close> while nothing was appended. The array does not end its bytes with a NUL.
  The error messages hand \<^verbatim>\<open>xml_blob->data\<close> to \<^verbatim>\<open>g_strconcat\<close>, which reads a
  C string: it stops at the first NUL byte of the body, and when the body holds none
  it reads on past the bytes that were received, into the part of the buffer that was
  never written and beyond the buffer: undefined behaviour.
\<close>

definition blob_data :: "string \<Rightarrow> string option exec" where
  "blob_data xml_blob =
     (if xml_blob = [] then Returns None
      else if CHR 0x00 \<in> set xml_blob
      then Returns (Some (takeWhile (\<lambda>c. c \<noteq> CHR 0x00) xml_blob))
      else Undefined_Behaviour)"

text \<open>The error of a rejected body: \<^verbatim>\<open>g_strconcat(text, xml_blob->data, NULL)\<close> and
  \<^verbatim>\<open>_ds3_create_error(DS3_ERROR_INVALID_XML, message)\<close>.\<close>

definition invalid_xml_error :: "string \<Rightarrow> string \<Rightarrow> ds3_error exec" where
  "invalid_xml_error text_before xml_blob =
     (case blob_data xml_blob of
        Undefined_Behaviour \<Rightarrow> Undefined_Behaviour
      | Returns data \<Rightarrow>
          Returns (ds3_create_error DS3_ERROR_INVALID_XML
                     (g_strconcat [Some text_before, data])))"

text \<open>
  The start of each decoding operation: the parsed document \<open>doc\<close> is the result of
  \<^verbatim>\<open>xmlParseMemory\<close> on the body, \<open>None\<close> for \<^verbatim>\<open>NULL\<close>. The three operations
  differ in the root element they expect and in the text of the second message.
\<close>

definition expect_root ::
  "xmlNode option \<Rightarrow> string \<Rightarrow> string \<Rightarrow> string \<Rightarrow> (ds3_error + xmlNode) exec" where
  "expect_root doc xml_blob root_name mismatch =
     (case doc of
        None \<Rightarrow>
          (case invalid_xml_error
                  ''Failed to parse response document.  The actual response is: '' xml_blob of
             Undefined_Behaviour \<Rightarrow> Undefined_Behaviour
           | Returns error \<Rightarrow> Returns (Inl error))
      | Some root \<Rightarrow>
          if node_name root \<noteq> root_name then
            (case invalid_xml_error mismatch xml_blob of
               Undefined_Behaviour \<Rightarrow> Undefined_Behaviour
             | Returns error \<Rightarrow> Returns (Inl error))
          else Returns (Inr root))"

definition get_service_child ::
  "xmlNode \<Rightarrow> ds3_get_service_response \<Rightarrow> ds3_get_service_response exec" where
  "get_service_child child_node response =
     (if node_name child_node = ''Buckets'' then parse_buckets child_node response
      else if node_name child_node = ''Owner'' then
        (case parse_owner child_node of
           Undefined_Behaviour \<Rightarrow> Undefined_Behaviour
         | Returns own \<Rightarrow> Returns (response\<lparr>owner := Some own\<rparr>))
      else Returns response)"

text \<open>\<^verbatim>\<open>ds3_get_service\<close> from the parsed document on.\<close>

definition get_service_decode ::
  "xmlNode option \<Rightarrow> string \<Rightarrow> (ds3_error + ds3_get_service_response) exec" where
  "get_service_decode doc xml_blob =
     (case expect_root doc xml_blob ''ListAllMyBucketsResult''
             ''Expected the root element to be 'ListAllMyBucketsResult'.  The actual response is: '' of
        Undefined_Behaviour \<Rightarrow> Undefined_Behaviour
      | Returns (Inl error) \<Rightarrow> Returns (Inl error)
      | Returns (Inr root) \<Rightarrow>
          (case exec_fold get_service_child (xmlChildrenNode root)
                  \<lparr>buckets = [], owner = None\<rparr> of
             Undefined_Behaviour \<Rightarrow> Undefined_Behaviour
           | Returns response \<Rightarrow> Returns (Inr response)))"

subsection \<open>Bucket listing\<close>

text \<open>The loop body of \<^verbatim>\<open>_parse_object\<close>. \<^verbatim>\<open>Key\<close> and \<^verbatim>\<open>Size\<close> use their text
  unchecked; the other leaves skip a \<^verbatim>\<open>NULL\<close> text with \<^verbatim>\<open>continue\<close>.\<close>

definition parse_object_child :: "xmlNode \<Rightarrow> ds3_object \<Rightarrow> ds3_object exec" where
  "parse_object_child child_node object =
     (if node_name child_node = ''Key'' then
        (case xmlNodeListGetString (xmlChildrenNode child_node) of
           None \<Rightarrow> Undefined_Behaviour
         | Some t \<Rightarrow> Returns (object\<lparr>object_name := Some t\<rparr>))
      else if node_name child_node = ''ETag'' then
        (case xmlNodeListGetString (xmlChildrenNode child_node) of
           None \<Rightarrow> Returns object
         | Some t \<Rightarrow> Returns (object\<lparr>etag := Some t\<rparr>))
      else if node_name child_node = ''LastModified'' then
        (case xmlNodeListGetString (xmlChildrenNode child_node) of
           None \<Rightarrow> Returns object
         | Some t \<Rightarrow> Returns (object\<lparr>last_modified := Some t\<rparr>))
      else if node_name child_node = ''StorageClass'' then
        (case xmlNodeListGetString (xmlChildrenNode child_node) of
           None \<Rightarrow> Returns object
         | Some t \<Rightarrow> Returns (object\<lparr>storage_class := Some t\<rparr>))
      else if node_name child_node = ''Size'' then
        (case xmlNodeListGetString (xmlChildrenNode child_node) of
           None \<Rightarrow> Undefined_Behaviour
         | Some t \<Rightarrow> Returns (object\<lparr>object_size := strtoul t\<rparr>))
      else if node_name child_node = ''Owner'' then
        (case parse_owner child_node of
           Undefined_Behaviour \<Rightarrow> Undefined_Behaviour
         | Returns own \<Rightarrow> Returns (object\<lparr>object_owner := Some own\<rparr>))
      else Returns object)"

definition parse_object :: "xmlNode \<Rightarrow> ds3_object exec" where
  "parse_object contents_node =
     exec_fold parse_object_child (xmlChildrenNode contents_node)
       \<lparr>object_name = None, etag = None, last_modified = None, storage_class = None,
        object_size = 0, object_owner = None\<rparr>"

text \<open>The loop body of \<^verbatim>\<open>ds3_get_bucket\<close>. The objects are collected in
  \<^verbatim>\<open>object_array\<close> and stored in the response after the loop; here they are collected
  in the response.\<close>

definition get_bucket_child ::
  "xmlNode \<Rightarrow> ds3_get_bucket_response \<Rightarrow> ds3_get_bucket_response exec" where
  "get_bucket_child child_node response =
     (if node_name child_node = ''Contents'' then
        (case parse_object child_node of
           Undefined_Behaviour \<Rightarrow> Undefined_Behaviour
         | Returns object \<Rightarrow> Returns (response\<lparr>objects := objects response @ [object]\<rparr>))
      else if node_name child_node = ''CreationDate'' then
        (case xmlNodeListGetString (xmlChildrenNode child_node) of
           None \<Rightarrow> Returns response
         | Some t \<Rightarrow> Returns (response\<lparr>creation_date := Some t\<rparr>))
      else if node_name child_node = ''IsTruncated'' then
        (case xmlNodeListGetString (xmlChildrenNode child_node) of
           None \<Rightarrow> Returns response
         | Some t \<Rightarrow>
             if strncmp_eq t ''true'' 4 then Returns (response\<lparr>is_truncated := True\<rparr>)
             else Returns (response\<lparr>is_truncated := False\<rparr>))
      else if node_name child_node = ''Marker'' then
        (case xmlNodeListGetString (xmlChildrenNode child_node) of
           None \<Rightarrow> Returns response
         | Some t \<Rightarrow> Returns (response\<lparr>marker := Some t\<rparr>))
      else if node_name child_node = ''MaxKeys'' then
        (case xmlNodeListGetString (xmlChildrenNode child_node) of
           None \<Rightarrow> Returns response
         | Some t \<Rightarrow> Returns (response\<lparr>max_keys := strtoul t\<rparr>))
      else if node_name child_node = ''Name'' then
        (case xmlNodeListGetString (xmlChildrenNode child_node) of
           None \<Rightarrow> Returns response
         | Some t \<Rightarrow> Returns (response\<lparr>name := Some t\<rparr>))
      else if node_name child_node = ''Delimiter'' then
        (case xmlNodeListGetString (xmlChildrenNode child_node) of
           None \<Rightarrow> Returns response
         | Some t \<Rightarrow> Returns (response\<lparr>delimiter := Some t\<rparr>))
      else if node_name child_node = ''NextMarker'' then
        (case xmlNodeListGetString (xmlChildrenNode child_node) of
           None \<Rightarrow> Returns response
         | Some t \<Rightarrow> Returns (response\<lparr>next_marker := Some t\<rparr>))
      else if node_name child_node = ''Prefix'' then
        (case xmlNodeListGetString (xmlChildrenNode child_node) of
           None \<Rightarrow> Returns response
         | Some t \<Rightarrow> Returns (response\<lparr>prefix := Some t\<rparr>))
      else Returns response)"

text \<open>\<^verbatim>\<open>g_new0(ds3_get_bucket_response, 1)\<close>.\<close>

definition get_bucket_response_init :: ds3_get_bucket_response where
  "get_bucket_response_init =
     \<lparr>objects = [], creation_date = None, is_truncated = False, marker = None,
      delimiter = None, max_keys = 0, name = None, next_marker = None, prefix = None\<rparr>"

text \<open>\<^verbatim>\<open>ds3_get_bucket\<close> from the parsed document on.\<close>

definition get_bucket_decode ::
  "xmlNode option \<Rightarrow> string \<Rightarrow> (ds3_error + ds3_get_bucket_response) exec" where
  "get_bucket_decode doc xml_blob =
     (case expect_root doc xml_blob ''ListBucketResult''
             ''Expected the root element to be 'ListBucketsResult'.  The actual response is: '' of
        Undefined_Behaviour \<Rightarrow> Undefined_Behaviour
      | Returns (Inl error) \<Rightarrow> Returns (Inl error)
      | Returns (Inr root) \<Rightarrow>
          (case exec_fold get_bucket_child (xmlChildrenNode root) get_bucket_response_init of
             Undefined_Behaviour \<Rightarrow> Undefined_Behaviour
           | Returns response \<Rightarrow> Returns (Inr response)))"

text \<open>The text of a node named \<^verbatim>\<open>IsTruncated\<close>, and the texts of the
  \<^verbatim>\<open>IsTruncated\<close> children of the root that have one, in document order.\<close>

definition truncated_text :: "xmlNode \<Rightarrow> string option" where
  "truncated_text n =
     (if node_name n = ''IsTruncated'' then xmlNodeListGetString (xmlChildrenNode n) else None)"

definition truncated_texts :: "xmlNode \<Rightarrow> string list" where
  "truncated_texts root = List.map_filter truncated_text (xmlChildrenNode root)"

subsection \<open>Bulk job manifest\<close>

text \<open>The attribute loop of \<^verbatim>\<open>_parse_bulk_object\<close>; its loop over the children only
  prints them.\<close>

definition parse_bulk_object_attr :: "xmlAttr \<Rightarrow> ds3_bulk_object \<Rightarrow> ds3_bulk_object" where
  "parse_bulk_object_attr attribute response =
     (if fst attribute = ''Name'' then
        (case xmlNodeListGetString (snd attribute) of
           None \<Rightarrow> response
         | Some t \<Rightarrow> response\<lparr>bulk_object_name := Some t\<rparr>)
      else if fst attribute = ''Size'' then
        (case xmlNodeListGetString (snd attribute) of
           None \<Rightarrow> response
         | Some t \<Rightarrow> response\<lparr>bulk_object_size := strtoul t\<rparr>)
      else response)"

definition parse_bulk_object :: "xmlNode \<Rightarrow> ds3_bulk_object" where
  "parse_bulk_object object_node =
     foldl (\<lambda>response attribute. parse_bulk_object_attr attribute response)
       \<lparr>bulk_object_name = None, bulk_object_size = 0\<rparr> (properties object_node)"

definition parse_bulk_objects_attr ::
  "xmlAttr \<Rightarrow> ds3_bulk_object_list \<Rightarrow> ds3_bulk_object_list" where
  "parse_bulk_objects_attr attribute response =
     (if fst attribute = ''ServerId'' then
        (case xmlNodeListGetString (snd attribute) of
           None \<Rightarrow> response
         | Some t \<Rightarrow> response\<lparr>server_id := Some t\<rparr>)
      else if fst attribute = ''ChunkNumber'' then
        (case xmlNodeListGetString (snd attribute) of
           None \<Rightarrow> response
         | Some t \<Rightarrow> response\<lparr>chunk_number := strtoul t\<rparr>)
      else response)"

text \<open>\<^verbatim>\<open>_parse_bulk_objects\<close>: the attributes of the \<^verbatim>\<open>Objects\<close> node, then one
  object per child named \<^verbatim>\<open>Object\<close>.\<close>

definition parse_bulk_objects :: "xmlNode \<Rightarrow> ds3_bulk_object_list" where
  "parse_bulk_objects objects_node =
     (let response =
            foldl (\<lambda>response attribute. parse_bulk_objects_attr attribute response)
              \<lparr>bulk_objects = [], server_id = None, chunk_number = 0\<rparr>
              (properties objects_node);
          object_array =
            foldl (\<lambda>array child_node.
                     if node_name child_node = ''Object''
                     then array @ [parse_bulk_object child_node] else array)
              [] (xmlChildrenNode objects_node)
      in response\<lparr>bulk_objects := object_array\<rparr>)"

text \<open>\<^verbatim>\<open>ds3_bulk\<close> from the parsed response document on.\<close>

definition bulk_decode ::
  "xmlNode option \<Rightarrow> string \<Rightarrow> (ds3_error + ds3_bulk_response) exec" where
  "bulk_decode doc xml_blob =
     (case expect_root doc xml_blob ''MasterObjectList''
             ''Expected the root element to be 'MasterObjectList'.  The actual response is: '' of
        Undefined_Behaviour \<Rightarrow> Undefined_Behaviour
      | Returns (Inl error) \<Rightarrow> Returns (Inl error)
      | Returns (Inr root) \<Rightarrow>
          (let response =
                 foldl (\<lambda>response attribute.
                          if fst attribute = ''JobId'' then
                            (case xmlNodeListGetString (snd attribute) of
                               None \<Rightarrow> response
                             | Some t \<Rightarrow> response\<lparr>job_id := Some t\<rparr>)
                          else response)
                   \<lparr>job_id = None, bulk_lists = []\<rparr> (properties root);
               objects_array =
                 foldl (\<lambda>array child_node.
                          if node_name child_node = ''Objects''
                          then array @ [parse_bulk_objects child_node] else array)
                   [] (xmlChildrenNode root)
           in Returns (Inr (response\<lparr>bulk_lists := objects_array\<rparr>))))"

text \<open>
  The request body of \<^verbatim>\<open>ds3_bulk\<close>: the document built before
  \<^verbatim>\<open>xmlDocDumpFormatMemory\<close>. The source adds each new node to its parent first and
  completes it afterwards, through the pointer; the tree below is the one that stands
  when the loop has ended.
\<close>

definition bulk_object_node :: "ds3_bulk_object \<Rightarrow> xmlNode" where
  "bulk_object_node obj =
     xmlSetProp
       (xmlSetProp (xmlNewNode ''Object'') ''Name'' (bulk_object_name obj))
       ''Size'' (Some (snprintf_ld (bulk_object_size obj)))"

definition bulk_objects_node :: "ds3_bulk_object_list \<Rightarrow> xmlNode" where
  "bulk_objects_node obj_list =
     foldl (\<lambda>objects_node obj. xmlAddChild objects_node (bulk_object_node obj))
       (xmlNewNode ''Objects'') (bulk_objects obj_list)"

definition bulk_request_document :: "ds3_bulk_object_list \<Rightarrow> xmlNode" where
  "bulk_request_document obj_list =
     xmlAddChild (xmlNewNode ''MasterObjectList'') (bulk_objects_node obj_list)"

section \<open>Credentials, clients and requests\<close>

datatype http_verb = HTTP_GET | HTTP_PUT | HTTP_POST | HTTP_DELETE | HTTP_HEAD

text \<open>The length fields (\<^verbatim>\<open>access_id_len\<close>, \<^verbatim>\<open>secret_key_len\<close>,
  \<^verbatim>\<open>endpoint_len\<close>, \<^verbatim>\<open>proxy_len\<close>) hold the \<^verbatim>\<open>strlen\<close> of their strings.\<close>

record ds3_creds =
  access_id :: string
  secret_key :: string

definition ds3_create_creds :: "string option \<Rightarrow> string option \<Rightarrow> ds3_creds option" where
  "ds3_create_creds id_arg key_arg =
     (case (id_arg, key_arg) of
        (Some i, Some k) \<Rightarrow> Some \<lparr>access_id = i, secret_key = k\<rparr>
      | _ \<Rightarrow> None)"

record ds3_client =
  endpoint :: string
  creds :: "ds3_creds option"
  proxy :: "string option"
  num_redirects :: int

definition ds3_create_client :: "string option \<Rightarrow> ds3_creds option \<Rightarrow> ds3_client option" where
  "ds3_create_client endpoint_arg creds_arg =
     (case endpoint_arg of
        None \<Rightarrow> None
      | Some e \<Rightarrow> Some \<lparr>endpoint = e, creds = creds_arg, proxy = None, num_redirects = 5\<rparr>)"

text \<open>\<^verbatim>\<open>struct _ds3_request\<close>. The two hash tables are association lists; the order of a
  list is the order in which \<^verbatim>\<open>g_hash_table_foreach\<close> visits the entries, which GLib
  leaves open.\<close>

record ds3_request =
  verb :: http_verb
  path :: "string option"
  request_length :: "64 word"
  request_headers :: "(string \<times> string) list"
  query_params :: "(string \<times> string) list"
  object_list :: "ds3_bulk_object_list option"

text \<open>\<^verbatim>\<open>_common_request_init\<close>: a zeroed request with two new tables.\<close>

definition common_request_init :: ds3_request where
  "common_request_init =
     \<lparr>verb = HTTP_GET, path = None, request_length = 0, request_headers = [],
      query_params = [], object_list = None\<rparr>"

definition ds3_init_get_service :: ds3_request where
  "ds3_init_get_service = common_request_init\<lparr>verb := HTTP_GET, path := Some ''/''\<rparr>"

definition ds3_init_get_bucket :: "string option \<Rightarrow> ds3_request" where
  "ds3_init_get_bucket bucket =
     common_request_init
       \<lparr>verb := HTTP_GET, path := Some (g_strconcat [Some ''/'', bucket])\<rparr>"

definition ds3_init_get_object :: "string option \<Rightarrow> string option \<Rightarrow> ds3_request" where
  "ds3_init_get_object bucket object =
     common_request_init
       \<lparr>verb := HTTP_GET, path := Some (g_strconcat [Some ''/'', bucket, Some ''/'', object])\<rparr>"

definition ds3_init_delete_object :: "string option \<Rightarrow> string option \<Rightarrow> ds3_request" where
  "ds3_init_delete_object bucket object =
     common_request_init
       \<lparr>verb := HTTP_DELETE,
        path := Some (g_strconcat [Some ''/'', bucket, Some ''/'', object])\<rparr>"

definition ds3_init_put_object ::
  "string option \<Rightarrow> string option \<Rightarrow> 64 word \<Rightarrow> ds3_request" where
  "ds3_init_put_object bucket object len =
     common_request_init
       \<lparr>verb := HTTP_PUT,
        path := Some (g_strconcat [Some ''/'', bucket, Some ''/'', object]),
        request_length := len\<rparr>"

definition ds3_init_put_bucket :: "string option \<Rightarrow> ds3_request" where
  "ds3_init_put_bucket bucket =
     common_request_init
       \<lparr>verb := HTTP_PUT, path := Some (g_strconcat [Some ''/'', bucket])\<rparr>"

definition ds3_init_delete_bucket :: "string option \<Rightarrow> ds3_request" where
  "ds3_init_delete_bucket bucket =
     common_request_init
       \<lparr>verb := HTTP_DELETE, path := Some (g_strconcat [Some ''/'', bucket])\<rparr>"

definition ds3_init_get_bulk ::
  "string option \<Rightarrow> ds3_bulk_object_list option \<Rightarrow> ds3_request" where
  "ds3_init_get_bulk bucket obj_list =
     common_request_init
       \<lparr>verb := HTTP_PUT,
        path := Some (g_strconcat [Some ''/_rest_/bucket/'', bucket]),
        query_params :=
          g_hash_table_insert (query_params common_request_init)
            ''operation'' ''start_bulk_get'',
        object_list := obj_list\<rparr>"

definition ds3_init_put_bulk ::
  "string option \<Rightarrow> ds3_bulk_object_list option \<Rightarrow> ds3_request" where
  "ds3_init_put_bulk bucket obj_list =
     common_request_init
       \<lparr>verb := HTTP_PUT,
        path := Some (g_strconcat [Some ''/_rest_/bucket/'', bucket]),
        query_params :=
          g_hash_table_insert (query_params common_request_init)
            ''operation'' ''start_bulk_put'',
        object_list := obj_list\<rparr>"


section \<open>What the program takes from outside\<close>

text \<open>
  What libcurl has been told about one transfer (\<^verbatim>\<open>curl_easy_setopt\<close>). The handler
  for the response body and its user structure are one field, and so are the upload
  handler and the data it reads.
\<close>

record curl_options =
  opt_url :: string
  opt_followlocation :: bool
  opt_maxredirs :: int
  opt_proxy :: "string option"
  opt_writedata :: bool
  opt_readdata :: "string option"
  opt_customrequest :: "string option"
  opt_post :: bool
  opt_put :: bool
  opt_upload :: bool
  opt_infilesize :: "64 word option"
  opt_httpheader :: "string list"

text \<open>What the network does with a transfer: the header lines and the body chunks that
  arrive, and the \<^verbatim>\<open>CURLcode\<close> the transfer ends with (0 is \<^verbatim>\<open>CURLE_OK\<close>).\<close>

record curl_reply =
  reply_header_lines :: "string list"
  reply_body :: "string list"
  reply_result :: nat

datatype GChecksumType = G_CHECKSUM_MD5 | G_CHECKSUM_SHA1 | G_CHECKSUM_SHA256 | G_CHECKSUM_SHA512

text \<open>
  The libraries and the world around the program: GLib's HMAC (the digest of
  \<^verbatim>\<open>g_hmac_new\<close>, \<^verbatim>\<open>g_hmac_update\<close> and \<^verbatim>\<open>g_hmac_get_digest\<close> for a
  checksum type, a key and the data) and its base64 encoder, the formatted local time,
  whether \<^verbatim>\<open>curl_easy_init\<close> gives a handle, the network, libcurl's error texts,
  and libxml2's parser and serialiser.
\<close>

record environment =
  g_hmac :: "GChecksumType \<Rightarrow> string \<Rightarrow> string \<Rightarrow> string"
  g_base64_encode :: "string \<Rightarrow> string"
  date_string :: string
  curl_handle :: bool
  curl_server :: "curl_options \<Rightarrow> curl_reply"
  curl_easy_strerror :: "nat \<Rightarrow> string"
  xmlParseMemory :: "string \<Rightarrow> xmlNode option"
  xmlDocDumpFormatMemory :: "xmlNode \<Rightarrow> string"

text \<open>What the program has done to the world: the one-time initialisation of libcurl,
  and the transfers performed, in order.\<close>

record world =
  curl_initialized :: bool
  exchanges :: "curl_options list"

text \<open>\<^verbatim>\<open>xmlParseMemory(buffer, size)\<close> gives \<^verbatim>\<open>NULL\<close> for an empty buffer.\<close>

definition xml_parse :: "environment \<Rightarrow> string \<Rightarrow> xmlNode option" where
  "xml_parse env xml_blob = (if xml_blob = [] then None else xmlParseMemory env xml_blob)"

section \<open>The canonical signer\<close>

text \<open>\<^verbatim>\<open>_net_get_verb\<close>; the \<^verbatim>\<open>return NULL\<close> after the switch is not reached for a
  verb of the enumeration.\<close>

fun net_get_verb :: "http_verb \<Rightarrow> string" where
  "net_get_verb HTTP_GET = ''GET''"
| "net_get_verb HTTP_PUT = ''PUT''"
| "net_get_verb HTTP_POST = ''POST''"
| "net_get_verb HTTP_DELETE = ''DELETE''"
| "net_get_verb HTTP_HEAD = ''HEAD''"

definition generate_signature_str ::
  "http_verb \<Rightarrow> string option \<Rightarrow> string option \<Rightarrow> string option \<Rightarrow> string option \<Rightarrow>
   string option \<Rightarrow> string option" where
  "generate_signature_str v resource_name date content_type md5 amz_headers =
     (if resource_name = None then None
      else if date = None then None
      else Some (g_strconcat
                   [Some (net_get_verb v), Some [CHR 0x0A], md5, Some [CHR 0x0A],
                    content_type, Some [CHR 0x0A], date, Some [CHR 0x0A],
                    amz_headers, resource_name]))"

text \<open>\<^verbatim>\<open>_net_compute_signature\<close>. \<^verbatim>\<open>g_hmac_update(hmac, signature_str, -1)\<close> takes the
  length of its data with \<^verbatim>\<open>strlen\<close>.\<close>

definition net_compute_signature ::
  "environment \<Rightarrow> ds3_creds \<Rightarrow> http_verb \<Rightarrow> string option \<Rightarrow> string option \<Rightarrow>
   string option \<Rightarrow> string option \<Rightarrow> string option \<Rightarrow> string exec" where
  "net_compute_signature env cr v resource_name date content_type md5 amz_headers =
     (case generate_signature_str v resource_name date content_type md5 amz_headers of
        None \<Rightarrow> Undefined_Behaviour
      | Some signature_str \<Rightarrow>
          Returns (g_base64_encode env (g_hmac env G_CHECKSUM_SHA1 (secret_key cr) signature_str)))"

section \<open>The request executor\<close>

text \<open>\<^verbatim>\<open>_hash_for_each\<close> writes entry \<^verbatim>\<open>entries->size\<close> of the array and leaves
  \<^verbatim>\<open>entries->size\<close> as it is.\<close>

definition hash_for_each ::
  "string \<times> string \<Rightarrow> string option list \<times> nat \<Rightarrow> string option list \<times> nat" where
  "hash_for_each kv q =
     ((fst q)[snd q := Some (g_strconcat [Some (fst kv), Some ''='', Some (snd kv)])], snd q)"

text \<open>The strings of a \<^verbatim>\<open>NULL\<close>-terminated array.\<close>

definition strv_of :: "string option list \<Rightarrow> string list" where
  "strv_of entries = map the (takeWhile (\<lambda>e. e \<noteq> None) entries)"

definition net_gen_query_params :: "(string \<times> string) list \<Rightarrow> string option" where
  "net_gen_query_params params =
     (if length params > 0 then
        (let entries = replicate (length params + 1) None;
             q_entries = foldl (\<lambda>q kv. hash_for_each kv q) (entries, 0) params
         in Some (g_strjoinv ''&'' (strv_of (fst q_entries))))
      else None)"


text \<open>
  \<^verbatim>\<open>_net_process_request\<close> up to \<^verbatim>\<open>curl_easy_perform\<close>: the options set on the
  handle. \<open>read_handler\<close> says that a handler for the response body and its user
  structure were given; \<open>write_user_struct\<close> is the data an upload handler reads,
  \<open>None\<close> when the handler or its structure is \<^verbatim>\<open>NULL\<close>.
\<close>

definition net_prepare ::
  "environment \<Rightarrow> ds3_client \<Rightarrow> ds3_request \<Rightarrow> bool \<Rightarrow> string option \<Rightarrow> curl_options exec" where
  "net_prepare env client request read_handler write_user_struct =
     (let url = (case net_gen_query_params (query_params request) of
                   None \<Rightarrow> g_strconcat [Some (endpoint client), path request]
                 | Some q \<Rightarrow>
                     g_strconcat [Some (endpoint client), path request, Some ''?'', Some q]);
          uploading = (write_user_struct \<noteq> None);
          date = date_string env;
          date_header = g_strconcat [Some ''Date: '', Some date]
      in case creds client of
           None \<Rightarrow> Undefined_Behaviour
         | Some cr \<Rightarrow>
             (case net_compute_signature env cr (verb request) (path request) (Some date)
                     (Some []) (Some []) (Some []) of
                Undefined_Behaviour \<Rightarrow> Undefined_Behaviour
              | Returns signature \<Rightarrow>
                  Returns
                    \<lparr>opt_url = url,
                     opt_followlocation = True,
                     opt_maxredirs = num_redirects client,
                     opt_proxy = proxy client,
                     opt_writedata = read_handler,
                     opt_readdata = write_user_struct,
                     opt_customrequest =
                       (case verb request of
                          HTTP_POST \<Rightarrow> if uploading then None else Some ''POST''
                        | HTTP_PUT \<Rightarrow> if uploading then None else Some ''PUT''
                        | HTTP_DELETE \<Rightarrow> Some ''DELETE''
                        | HTTP_HEAD \<Rightarrow> Some ''HEAD''
                        | HTTP_GET \<Rightarrow> None),
                     opt_post = (verb request = HTTP_POST \<and> uploading),
                     opt_put = (verb request = HTTP_PUT \<and> uploading),
                     opt_upload =
                       ((verb request = HTTP_POST \<or> verb request = HTTP_PUT) \<and> uploading),
                     opt_infilesize =
                       (if (verb request = HTTP_POST \<or> verb request = HTTP_PUT) \<and> uploading
                        then Some (request_length request) else None),
                     opt_httpheader =
                       [g_strconcat [Some ''Authorization: AWS '', Some (access_id cr),
                                     Some '':'', Some signature],
                        date_header]\<rparr>))"

text \<open>
  \<^verbatim>\<open>curl_easy_perform\<close>: the header lines go through \<^verbatim>\<open>_process_header_line\<close>; a
  line it does not accept ends the transfer with \<^verbatim>\<open>CURLE_WRITE_ERROR\<close> (23). The body
  reaches the program only through a registered handler. The result is the
  \<^verbatim>\<open>CURLcode\<close> and the bytes the body handler has collected.
\<close>

definition curl_easy_perform :: "environment \<Rightarrow> curl_options \<Rightarrow> (nat \<times> string) exec" where
  "curl_easy_perform env opts =
     (let reply = curl_server env opts in
      case feed_header_lines (reply_header_lines reply) response_data_init of
        Undefined_Behaviour \<Rightarrow> Undefined_Behaviour
      | Returns (accepted, response_data) \<Rightarrow>
          if \<not> accepted then Returns (23, [])
          else Returns (reply_result reply,
                        if opt_writedata opts then concat (reply_body reply) else []))"

text \<open>\<^verbatim>\<open>_net_process_request\<close>: the world after the call, the returned error
  (\<open>None\<close> for \<^verbatim>\<open>NULL\<close>) and the bytes handed to the body handler.\<close>

definition net_process_request ::
  "environment \<Rightarrow> world \<Rightarrow> ds3_client \<Rightarrow> ds3_request \<Rightarrow> bool \<Rightarrow> string option \<Rightarrow>
   (world \<times> ds3_error option \<times> string) exec" where
  "net_process_request env w client request read_handler write_user_struct =
     (let w1 = w\<lparr>curl_initialized := True\<rparr> in
      if curl_handle env then
        (case net_prepare env client request read_handler write_user_struct of
           Undefined_Behaviour \<Rightarrow> Undefined_Behaviour
         | Returns opts \<Rightarrow>
             (case curl_easy_perform env opts of
                Undefined_Behaviour \<Rightarrow> Undefined_Behaviour
              | Returns (res, body) \<Rightarrow>
                  let w2 = w1\<lparr>exchanges := exchanges w1 @ [opts]\<rparr> in
                  if res \<noteq> 0 then
                    Returns (w2,
                      Some (ds3_create_error DS3_ERROR_FAILED_REQUEST
                              (g_strconcat [Some ''Request failed: '',
                                            Some (curl_easy_strerror env res)])),
                      body)
                  else Returns (w2, None, body)))
      else
        Returns (w1,
          Some (ds3_create_error DS3_ERROR_CURL_HANDLE ''Failed to create curl handle''),
          []))"

definition internal_request_dispatcher ::
  "environment \<Rightarrow> world \<Rightarrow> ds3_client option \<Rightarrow> ds3_request option \<Rightarrow> bool \<Rightarrow>
   string option \<Rightarrow> (world \<times> ds3_error option \<times> string) exec" where
  "internal_request_dispatcher env w client request read_handler write_user_struct =
     (case (client, request) of
        (Some c, Some r) \<Rightarrow> net_process_request env w c r read_handler write_user_struct
      | _ \<Rightarrow>
          Returns (w,
            Some (ds3_create_error DS3_ERROR_MISSING_ARGS
                    ''All arguments must be filled in for request processing''),
            []))"

section \<open>The operations\<close>

text \<open>
  An operation that decodes a response returns the world after the call and either the
  error or the response stored through the result pointer. \<^verbatim>\<open>ds3_get_service\<close> and
  \<^verbatim>\<open>ds3_get_bucket\<close> call the dispatcher as a statement: its result is dropped.
\<close>

definition ds3_get_service ::
  "environment \<Rightarrow> world \<Rightarrow> ds3_client option \<Rightarrow> ds3_request option \<Rightarrow>
   (world \<times> (ds3_error + ds3_get_service_response)) exec" where
  "ds3_get_service env w client request =
     (case internal_request_dispatcher env w client request True None of
        Undefined_Behaviour \<Rightarrow> Undefined_Behaviour
      | Returns (w', dropped, xml_blob) \<Rightarrow>
          (case get_service_decode (xml_parse env xml_blob) xml_blob of
             Undefined_Behaviour \<Rightarrow> Undefined_Behaviour
           | Returns r \<Rightarrow> Returns (w', r)))"

definition ds3_get_bucket ::
  "environment \<Rightarrow> world \<Rightarrow> ds3_client option \<Rightarrow> ds3_request option \<Rightarrow>
   (world \<times> (ds3_error + ds3_get_bucket_response)) exec" where
  "ds3_get_bucket env w client request =
     (case internal_request_dispatcher env w client request True None of
        Undefined_Behaviour \<Rightarrow> Undefined_Behaviour
      | Returns (w', dropped, xml_blob) \<Rightarrow>
          (case get_bucket_decode (xml_parse env xml_blob) xml_blob of
             Undefined_Behaviour \<Rightarrow> Undefined_Behaviour
           | Returns r \<Rightarrow> Returns (w', r)))"

text \<open>The operations without a decoded response return what the dispatcher returns: the
  world, the error, and the bytes handed to the caller's body handler.\<close>

definition ds3_get_object ::
  "environment \<Rightarrow> world \<Rightarrow> ds3_client option \<Rightarrow> ds3_request option \<Rightarrow> bool \<Rightarrow>
   (world \<times> ds3_error option \<times> string) exec" where
  "ds3_get_object env w client request user_data =
     internal_request_dispatcher env w client request user_data None"

definition ds3_put_object ::
  "environment \<Rightarrow> world \<Rightarrow> ds3_client option \<Rightarrow> ds3_request option \<Rightarrow> string option \<Rightarrow>
   (world \<times> ds3_error option \<times> string) exec" where
  "ds3_put_object env w client request user_data =
     internal_request_dispatcher env w client request False user_data"

definition ds3_delete_object ::
  "environment \<Rightarrow> world \<Rightarrow> ds3_client option \<Rightarrow> ds3_request option \<Rightarrow>
   (world \<times> ds3_error option \<times> string) exec" where
  "ds3_delete_object env w client request =
     internal_request_dispatcher env w client request False None"

definition ds3_put_bucket ::
  "environment \<Rightarrow> world \<Rightarrow> ds3_client option \<Rightarrow> ds3_request option \<Rightarrow>
   (world \<times> ds3_error option \<times> string) exec" where
  "ds3_put_bucket env w client request =
     internal_request_dispatcher env w client request False None"

definition ds3_delete_bucket ::
  "environment \<Rightarrow> world \<Rightarrow> ds3_client option \<Rightarrow> ds3_request option \<Rightarrow>
   (world \<times> ds3_error option \<times> string) exec" where
  "ds3_delete_bucket env w client request =
     internal_request_dispatcher env w client request False None"

text \<open>\<^verbatim>\<open>ds3_bulk\<close>. The length of the serialised document is stored in the request
  before it is sent.\<close>

definition ds3_bulk ::
  "environment \<Rightarrow> world \<Rightarrow> ds3_client option \<Rightarrow> ds3_request option \<Rightarrow>
   (world \<times> (ds3_error + ds3_bulk_response)) exec" where
  "ds3_bulk env w client request =
     (case (client, request) of
        (Some c, Some r) \<Rightarrow>
          (case object_list r of
             None \<Rightarrow>
               Returns (w, Inl (ds3_create_error DS3_ERROR_MISSING_ARGS
                                  ''The bulk command requires a list of objects to process''))
           | Some obj_list \<Rightarrow>
               if length (bulk_objects obj_list) = 0 then
                 Returns (w, Inl (ds3_create_error DS3_ERROR_MISSING_ARGS
                                    ''The bulk command requires a list of objects to process''))
               else
                 (let xml_buff = xmlDocDumpFormatMemory env (bulk_request_document obj_list);
                      r' = r\<lparr>request_length := of_nat (length xml_buff)\<rparr>
                  in case net_process_request env w c r' True (Some xml_buff) of
                       Undefined_Behaviour \<Rightarrow> Undefined_Behaviour
                     | Returns (w', Some error_response, xml_blob) \<Rightarrow>
                         Returns (w', Inl error_response)
                     | Returns (w', None, xml_blob) \<Rightarrow>
                         (case bulk_decode (xml_parse env xml_blob) xml_blob of
                            Undefined_Behaviour \<Rightarrow> Undefined_Behaviour
                          | Returns decoded \<Rightarrow> Returns (w', decoded))))
      | _ \<Rightarrow>
          Returns (w, Inl (ds3_create_error DS3_ERROR_MISSING_ARGS
                             ''All arguments must be filled in for request processing'')))"

section \<open>Properties of the request factories\<close>

text \<open>
  Claim C2, as amended. The factories are functions of their arguments alone: they take
  no environment and no world, so none of them signs or touches the network. For a
  bucket \<open>b\<close> and an object \<open>ob\<close>, the path is \<open>/b\<close> for get, put and delete
  bucket, \<open>/b/ob\<close> for get, put and delete object, \<open>/\<close> for get service, and
  \<open>/_rest_/bucket/b\<close> for the two bulk factories. The bulk factories set exactly one
  query parameter, \<open>operation\<close>, to \<open>start_bulk_get\<close> or \<open>start_bulk_put\<close>, and
  attach the caller's object list; the other factories set no query parameter and attach
  no list.
\<close>

theorem request_factories:
  "path ds3_init_get_service = Some ''/'' \<and>
   path (ds3_init_get_bucket (Some b)) = Some (''/'' @ b) \<and>
   path (ds3_init_put_bucket (Some b)) = Some (''/'' @ b) \<and>
   path (ds3_init_delete_bucket (Some b)) = Some (''/'' @ b) \<and>
   path (ds3_init_get_object (Some b) (Some ob)) = Some (''/'' @ b @ ''/'' @ ob) \<and>
   path (ds3_init_put_object (Some b) (Some ob) len) = Some (''/'' @ b @ ''/'' @ ob) \<and>
   path (ds3_init_delete_object (Some b) (Some ob)) = Some (''/'' @ b @ ''/'' @ ob) \<and>
   path (ds3_init_get_bulk (Some b) l) = Some (''/_rest_/bucket/'' @ b) \<and>
   query_params (ds3_init_get_bulk (Some b) l) = [(''operation'', ''start_bulk_get'')] \<and>
   object_list (ds3_init_get_bulk (Some b) l) = l \<and>
   path (ds3_init_put_bulk (Some b) l) = Some (''/_rest_/bucket/'' @ b) \<and>
   query_params (ds3_init_put_bulk (Some b) l) = [(''operation'', ''start_bulk_put'')] \<and>
   object_list (ds3_init_put_bulk (Some b) l) = l \<and>
   query_params ds3_init_get_service = [] \<and> object_list ds3_init_get_service = None \<and>
   query_params (ds3_init_get_bucket (Some b)) = [] \<and>
   object_list (ds3_init_get_bucket (Some b)) = None \<and>
   query_params (ds3_init_put_bucket (Some b)) = [] \<and>
   object_list (ds3_init_put_bucket (Some b)) = None \<and>
   query_params (ds3_init_delete_bucket (Some b)) = [] \<and>
   object_list (ds3_init_delete_bucket (Some b)) = None \<and>
   query_params (ds3_init_get_object (Some b) (Some ob)) = [] \<and>
   object_list (ds3_init_get_object (Some b) (Some ob)) = None \<and>
   query_params (ds3_init_put_object (Some b) (Some ob) len) = [] \<and>
   object_list (ds3_init_put_object (Some b) (Some ob) len) = None \<and>
   query_params (ds3_init_delete_object (Some b) (Some ob)) = [] \<and>
   object_list (ds3_init_delete_object (Some b) (Some ob)) = None"
  by (simp add: ds3_init_get_service_def ds3_init_get_bucket_def ds3_init_put_bucket_def
        ds3_init_delete_bucket_def ds3_init_get_object_def ds3_init_put_object_def
        ds3_init_delete_object_def ds3_init_get_bulk_def ds3_init_put_bulk_def
        common_request_init_def)

text \<open>
  As the specification words it, the property fails for the bulk factories: for the
  bucket \<open>photos\<close> the path of a bulk get request is \<open>/_rest_/bucket/photos\<close>,
  not \<open>/photos\<close>.
\<close>

theorem bulk_path_counterexample:
  "path (ds3_init_get_bulk (Some ''photos'') None) = Some ''/_rest_/bucket/photos'' \<and>
   path (ds3_init_get_bulk (Some ''photos'') None) \<noteq> Some (''/'' @ ''photos'')"
  by (simp add: ds3_init_get_bulk_def common_request_init_def)

section \<open>Properties of the operations\<close>

lemma invalid_xml_error_code:
  "invalid_xml_error text_before xml_blob = Returns e \<Longrightarrow> code e = DS3_ERROR_INVALID_XML"
  by (auto simp: invalid_xml_error_def ds3_create_error_def split: exec.splits)

lemma expect_root_code:
  "expect_root doc xml_blob root_name mismatch = Returns (Inl e) \<Longrightarrow>
   code e = DS3_ERROR_INVALID_XML"
  by (auto simp: expect_root_def split: option.splits if_splits exec.splits
           dest: invalid_xml_error_code)

lemma bulk_decode_code:
  "bulk_decode doc xml_blob = Returns (Inl e) \<Longrightarrow> code e = DS3_ERROR_INVALID_XML"
  by (auto simp: bulk_decode_def Let_def split: sum.splits exec.splits dest: expect_root_code)

lemma net_process_request_code:
  "net_process_request env w c r rh wus = Returns (w', Some e, blob) \<Longrightarrow>
   code e = DS3_ERROR_FAILED_REQUEST \<or> code e = DS3_ERROR_CURL_HANDLE"
  by (auto simp: net_process_request_def Let_def ds3_create_error_def
           split: if_splits exec.splits prod.splits)

text \<open>
  Claim C8. When the client is absent, the request is absent, the request carries no
  object list, or the list it carries is empty, \<open>ds3_bulk\<close> returns a
  \<open>MISSING_ARGS\<close> error and leaves the world as it was: libcurl is not initialised
  and no transfer is performed, so nothing was signed or sent. For every other input,
  whatever \<open>ds3_bulk\<close> returns is not a \<open>MISSING_ARGS\<close> error.
\<close>

theorem ds3_bulk_missing_args:
  "(if client = None \<or> request = None \<or>
       (\<exists>r. request = Some r \<and>
            (object_list r = None \<or>
             (\<exists>l. object_list r = Some l \<and> bulk_objects l = [])))
    then \<exists>e. ds3_bulk env w client request = Returns (w, Inl e) \<and>
             code e = DS3_ERROR_MISSING_ARGS
    else \<not> (\<exists>w' e. ds3_bulk env w client request = Returns (w', Inl e) \<and>
                    code e = DS3_ERROR_MISSING_ARGS))"
proof (cases client)
  case None
  then show ?thesis by (simp add: ds3_bulk_def ds3_create_error_def)
next
  case (Some c)
  note c = this
  show ?thesis
  proof (cases request)
    case None
    with c show ?thesis by (simp add: ds3_bulk_def ds3_create_error_def)
  next
    case (Some r)
    note r = this
    show ?thesis
    proof (cases "object_list r")
      case None
      with c r show ?thesis by (simp add: ds3_bulk_def ds3_create_error_def)
    next
      case (Some l)
      show ?thesis
      proof (cases "bulk_objects l = []")
        case True
        with c r Some show ?thesis by (simp add: ds3_bulk_def ds3_create_error_def)
      next
        case False
        have "code e \<noteq> DS3_ERROR_MISSING_ARGS"
          if "ds3_bulk env w client request = Returns (w', Inl e)" for w' e
          using that c r Some False
          by (auto simp: ds3_bulk_def Let_def split: exec.splits prod.splits option.splits
                   dest!: net_process_request_code bulk_decode_code)
        with c r Some False show ?thesis by auto
      qed
    qed
  qed
qed

section \<open>Properties of the request executor\<close>

lemma hash_for_each_fold:
  "foldl (\<lambda>q kv. hash_for_each kv q) (entries, 0) (params @ [(k, v)]) =
   (entries[0 := Some (k @ ''='' @ v)], 0)"
proof (induction params arbitrary: entries)
  case Nil
  show ?case by (simp add: hash_for_each_def)
next
  case (Cons p ps)
  have "hash_for_each p (entries, 0) =
        (entries[0 := Some (g_strconcat [Some (fst p), Some ''='', Some (snd p)])], 0)"
    by (simp add: hash_for_each_def)
  then show ?case using Cons.IH by simp
qed

lemma net_gen_query_params_last:
  "net_gen_query_params (params @ [(k, v)]) = Some (k @ ''='' @ v)"
  by (simp add: net_gen_query_params_def Let_def hash_for_each_fold strv_of_def
        del: foldl_append)


lemma net_prepare_returns:
  "creds client = Some cr \<Longrightarrow> path request = Some p \<Longrightarrow>
   \<exists>opts. net_prepare env client request read_handler write_user_struct = Returns opts \<and>
     opt_httpheader opts =
       [''Authorization: AWS '' @ access_id cr @ '':'' @
          g_base64_encode env (g_hmac env G_CHECKSUM_SHA1 (secret_key cr)
            (net_get_verb (verb request) @ [CHR 0x0A, CHR 0x0A, CHR 0x0A] @
             date_string env @ [CHR 0x0A] @ p)),
        ''Date: '' @ date_string env] \<and>
     opt_writedata opts = read_handler \<and>
     opt_url opts =
       (case net_gen_query_params (query_params request) of
          None \<Rightarrow> endpoint client @ p
        | Some q \<Rightarrow> endpoint client @ p @ ''?'' @ q)"
  by (simp add: net_prepare_def net_compute_signature_def generate_signature_str_def Let_def
           split: option.splits)

lemma net_process_request_performs:
  assumes "curl_handle env"
    and "net_prepare env client request read_handler write_user_struct = Returns opts"
    and "curl_easy_perform env opts = Returns (res, body)"
  shows "net_process_request env w client request read_handler write_user_struct =
         Returns (w\<lparr>curl_initialized := True, exchanges := exchanges w @ [opts]\<rparr>,
                  if res \<noteq> 0
                  then Some \<lparr>code = DS3_ERROR_FAILED_REQUEST,
                             message = ''Request failed: '' @ curl_easy_strerror env res\<rparr>
                  else None,
                  body)"
  using assms by (simp add: net_process_request_def ds3_create_error_def Let_def)

lemma curl_easy_perform_no_headers:
  "reply_header_lines (curl_server env opts) = [] \<Longrightarrow>
   curl_easy_perform env opts =
     Returns (reply_result (curl_server env opts),
              if opt_writedata opts then concat (reply_body (curl_server env opts)) else [])"
  by (simp add: curl_easy_perform_def Let_def)

text \<open>
  Claim C1. The canonical string is the verb, a line feed, the content MD5, a line
  feed, the content type, a line feed, the date, a line feed, the amz headers and the
  resource path, with nothing between the last two; the signature is the base64
  encoding of the HMAC-SHA1 of that string under the secret key. For a client with
  credentials and a request with a path, the executor sets two headers on the transfer:
  \<open>Authorization: AWS\<close>, the access id, a colon and the signature of the verb, three
  line feeds, the date, a line feed and the request path (content MD5, content type and
  amz headers are empty); and the \<open>Date\<close> header. The transfer it performs is the one
  with these headers. The verb is written in capitals, \<open>GET\<close>, \<open>PUT\<close>, \<open>POST\<close>,
  \<open>DELETE\<close> or \<open>HEAD\<close>: the canonical string of a \<open>PUT\<close> of \<open>/bucket/object\<close>
  with the MD5 \<open>md5\<close>, the type \<open>text/plain\<close>, the date \<open>today\<close> and the amz
  header \<open>x-amz-a:1\<close> followed by a line feed is these, each of the first four
  followed by one line feed, then the amz header with its own line feed, then the path;
  and the string the executor signs for a \<open>DELETE\<close> of \<open>/bucket\<close> is \<open>DELETE\<close>,
  three line feeds, the date, a line feed and \<open>/bucket\<close>.
\<close>

theorem authorization_header:
  "map net_get_verb [HTTP_GET, HTTP_PUT, HTTP_POST, HTTP_DELETE, HTTP_HEAD] =
     [''GET'', ''PUT'', ''POST'', ''DELETE'', ''HEAD''] \<and>
   generate_signature_str HTTP_PUT (Some ''/bucket/object'') (Some ''today'')
     (Some ''text/plain'') (Some ''md5'') (Some (''x-amz-a:1'' @ [CHR 0x0A])) =
     Some (''PUT'' @ [CHR 0x0A] @ ''md5'' @ [CHR 0x0A] @ ''text/plain'' @ [CHR 0x0A] @
           ''today'' @ [CHR 0x0A] @ ''x-amz-a:1'' @ [CHR 0x0A] @ ''/bucket/object'') \<and>
   (case net_prepare (env\<lparr>curl_handle := True\<rparr>) (client\<lparr>creds := Some cr\<rparr>)
           (ds3_init_delete_bucket (Some ''bucket'')) read_handler write_user_struct of
      Returns opts \<Rightarrow>
        opt_httpheader opts =
          [''Authorization: AWS '' @ access_id cr @ '':'' @
             g_base64_encode env (g_hmac env G_CHECKSUM_SHA1 (secret_key cr)
               (''DELETE'' @ [CHR 0x0A, CHR 0x0A, CHR 0x0A] @ date_string env @ [CHR 0x0A] @
                ''/bucket'')),
           ''Date: '' @ date_string env]
    | Undefined_Behaviour \<Rightarrow> False) \<and>
   generate_signature_str v (Some resource) (Some date) (Some content_type) (Some md5)
     (Some amz_headers) =
     Some (net_get_verb v @ [CHR 0x0A] @ md5 @ [CHR 0x0A] @ content_type @ [CHR 0x0A] @
           date @ [CHR 0x0A] @ amz_headers @ resource) \<and>
   net_compute_signature env cr v (Some resource) (Some date) (Some content_type) (Some md5)
     (Some amz_headers) =
     Returns (g_base64_encode env (g_hmac env G_CHECKSUM_SHA1 (secret_key cr)
        (net_get_verb v @ [CHR 0x0A] @ md5 @ [CHR 0x0A] @ content_type @ [CHR 0x0A] @
         date @ [CHR 0x0A] @ amz_headers @ resource))) \<and>
   (case net_prepare (env\<lparr>curl_handle := True\<rparr>) (client\<lparr>creds := Some cr\<rparr>)
           (request\<lparr>path := Some p\<rparr>) read_handler write_user_struct of
      Returns opts \<Rightarrow>
        opt_httpheader opts =
          [''Authorization: AWS '' @ access_id cr @ '':'' @
             g_base64_encode env (g_hmac env G_CHECKSUM_SHA1 (secret_key cr)
               (net_get_verb (verb request) @ [CHR 0x0A] @ [] @ [CHR 0x0A] @ [] @ [CHR 0x0A] @
                date_string env @ [CHR 0x0A] @ [] @ p)),
           ''Date: '' @ date_string env] \<and>
        (case net_process_request (env\<lparr>curl_handle := True\<rparr>) w (client\<lparr>creds := Some cr\<rparr>)
                (request\<lparr>path := Some p\<rparr>) read_handler write_user_struct of
           Returns (w', err, body) \<Rightarrow> exchanges w' = exchanges w @ [opts]
         | Undefined_Behaviour \<Rightarrow>
             curl_easy_perform (env\<lparr>curl_handle := True\<rparr>) opts = Undefined_Behaviour)
    | Undefined_Behaviour \<Rightarrow> False)"
proof -
  let ?env = "env\<lparr>curl_handle := True\<rparr>"
  let ?c = "client\<lparr>creds := Some cr\<rparr>" and ?r = "request\<lparr>path := Some p\<rparr>"
  let ?d = "ds3_init_delete_bucket (Some ''bucket'')"
  have v: "map net_get_verb [HTTP_GET, HTTP_PUT, HTTP_POST, HTTP_DELETE, HTTP_HEAD] =
     [''GET'', ''PUT'', ''POST'', ''DELETE'', ''HEAD'']"
    by simp
  have g: "generate_signature_str HTTP_PUT (Some ''/bucket/object'') (Some ''today'')
     (Some ''text/plain'') (Some ''md5'') (Some (''x-amz-a:1'' @ [CHR 0x0A])) =
     Some (''PUT'' @ [CHR 0x0A] @ ''md5'' @ [CHR 0x0A] @ ''text/plain'' @ [CHR 0x0A] @
           ''today'' @ [CHR 0x0A] @ ''x-amz-a:1'' @ [CHR 0x0A] @ ''/bucket/object'')"
    by (simp add: generate_signature_str_def)
  have dp: "path ?d = Some ''/bucket''" and dv: "verb ?d = HTTP_DELETE"
    by (simp_all add: ds3_init_delete_bucket_def common_request_init_def)
  obtain dopts where dprep:
      "net_prepare ?env ?c ?d read_handler write_user_struct = Returns dopts"
    and dhd: "opt_httpheader dopts =
       [''Authorization: AWS '' @ access_id cr @ '':'' @
          g_base64_encode ?env (g_hmac ?env G_CHECKSUM_SHA1 (secret_key cr)
            (net_get_verb (verb ?d) @ [CHR 0x0A, CHR 0x0A, CHR 0x0A] @
             date_string ?env @ [CHR 0x0A] @ ''/bucket'')),
        ''Date: '' @ date_string ?env]"
    using net_prepare_returns [of ?c cr ?d "''/bucket''" ?env read_handler write_user_struct] dp
    by auto
  have d: "(case net_prepare ?env ?c ?d read_handler write_user_struct of
      Returns opts \<Rightarrow>
        opt_httpheader opts =
          [''Authorization: AWS '' @ access_id cr @ '':'' @
             g_base64_encode env (g_hmac env G_CHECKSUM_SHA1 (secret_key cr)
               (''DELETE'' @ [CHR 0x0A, CHR 0x0A, CHR 0x0A] @ date_string env @ [CHR 0x0A] @
                ''/bucket'')),
           ''Date: '' @ date_string env]
    | Undefined_Behaviour \<Rightarrow> False)"
    unfolding dprep using dhd unfolding dv by simp
  have s: "generate_signature_str v (Some resource) (Some date) (Some content_type) (Some md5)
     (Some amz_headers) =
     Some (net_get_verb v @ [CHR 0x0A] @ md5 @ [CHR 0x0A] @ content_type @ [CHR 0x0A] @
           date @ [CHR 0x0A] @ amz_headers @ resource)"
    by (simp add: generate_signature_str_def)
  have n: "net_compute_signature env cr v (Some resource) (Some date) (Some content_type)
      (Some md5) (Some amz_headers) =
     Returns (g_base64_encode env (g_hmac env G_CHECKSUM_SHA1 (secret_key cr)
        (net_get_verb v @ [CHR 0x0A] @ md5 @ [CHR 0x0A] @ content_type @ [CHR 0x0A] @
         date @ [CHR 0x0A] @ amz_headers @ resource)))"
    unfolding net_compute_signature_def s by simp
  obtain opts where prep: "net_prepare ?env ?c ?r read_handler write_user_struct = Returns opts"
    and hd: "opt_httpheader opts =
       [''Authorization: AWS '' @ access_id cr @ '':'' @
          g_base64_encode ?env (g_hmac ?env G_CHECKSUM_SHA1 (secret_key cr)
            (net_get_verb (verb ?r) @ [CHR 0x0A, CHR 0x0A, CHR 0x0A] @
             date_string ?env @ [CHR 0x0A] @ p)),
        ''Date: '' @ date_string ?env]"
    using net_prepare_returns [of ?c cr ?r p ?env read_handler write_user_struct] by auto
  have x: "(case net_process_request ?env w ?c ?r read_handler write_user_struct of
           Returns (w', err, body) \<Rightarrow> exchanges w' = exchanges w @ [opts]
         | Undefined_Behaviour \<Rightarrow> curl_easy_perform ?env opts = Undefined_Behaviour)"
    unfolding net_process_request_def prep
    by (cases "curl_easy_perform ?env opts") (auto simp: Let_def)
  have rest: "(case net_prepare ?env ?c ?r read_handler write_user_struct of
      Returns opts \<Rightarrow>
        opt_httpheader opts =
          [''Authorization: AWS '' @ access_id cr @ '':'' @
             g_base64_encode env (g_hmac env G_CHECKSUM_SHA1 (secret_key cr)
               (net_get_verb (verb request) @ [CHR 0x0A] @ [] @ [CHR 0x0A] @ [] @ [CHR 0x0A] @
                date_string env @ [CHR 0x0A] @ [] @ p)),
           ''Date: '' @ date_string env] \<and>
        (case net_process_request ?env w ?c ?r read_handler write_user_struct of
           Returns (w', err, body) \<Rightarrow> exchanges w' = exchanges w @ [opts]
         | Undefined_Behaviour \<Rightarrow> curl_easy_perform ?env opts = Undefined_Behaviour)
    | Undefined_Behaviour \<Rightarrow> False)"
    unfolding prep using hd x by simp
  from v g d s n rest show ?thesis by (intro conjI)
qed

text \<open>
  The traversal of the table writes every entry at index 0 of the array, since
  \<^verbatim>\<open>_hash_for_each\<close> never counts up: of a table with several entries the one visited
  last would be the query string, alone. For two parameters \<open>a=1\<close> and \<open>b=2\<close>,
  visited in this order, that is \<open>b=2\<close>. No factory makes such a table (see
  \<open>factory_request_params\<close> below), so that no request a caller can hold gets there.
\<close>

lemma query_params_keep_last_entry:
  "net_gen_query_params (params @ [(k, v)]) = Some (k @ ''='' @ v) \<and>
   net_gen_query_params [(''a'', ''1''), (''b'', ''2'')] = Some ''b=2'' \<and>
   (case net_prepare env (client\<lparr>creds := Some cr\<rparr>)
           (request\<lparr>path := Some p, query_params := [(''a'', ''1''), (''b'', ''2'')]\<rparr>)
           read_handler write_user_struct of
      Returns opts \<Rightarrow> opt_url opts = endpoint client @ p @ ''?b=2''
    | Undefined_Behaviour \<Rightarrow> False)"
proof -
  let ?c = "client\<lparr>creds := Some cr\<rparr>"
  let ?r = "request\<lparr>path := Some p, query_params := [(''a'', ''1''), (''b'', ''2'')]\<rparr>"
  have two: "net_gen_query_params [(''a'', ''1''), (''b'', ''2'')] = Some ''b=2''"
    using net_gen_query_params_last [of "[(''a'', ''1'')]" "''b''" "''2''"] by simp
  obtain opts where "net_prepare env ?c ?r read_handler write_user_struct = Returns opts"
    and "opt_url opts =
       (case net_gen_query_params (query_params ?r) of
          None \<Rightarrow> endpoint ?c @ p
        | Some q \<Rightarrow> endpoint ?c @ p @ ''?'' @ q)"
    using net_prepare_returns [of ?c cr ?r p env read_handler write_user_struct] by auto
  then show ?thesis
    using two by (simp add: net_gen_query_params_last)
qed





section \<open>Transport failures\<close>

lemma get_service_decode_unparsed:
  "get_service_decode None [] =
   Returns (Inl \<lparr>code = DS3_ERROR_INVALID_XML,
                 message = ''Failed to parse response document.  The actual response is: ''\<rparr>)"
  by (simp add: get_service_decode_def expect_root_def invalid_xml_error_def blob_data_def
        ds3_create_error_def)

lemma get_bucket_decode_unparsed:
  "get_bucket_decode None [] =
   Returns (Inl \<lparr>code = DS3_ERROR_INVALID_XML,
                 message = ''Failed to parse response document.  The actual response is: ''\<rparr>)"
  by (simp add: get_bucket_decode_def expect_root_def invalid_xml_error_def blob_data_def
        ds3_create_error_def)

lemma get_service_decode_empty_listing:
  "get_service_decode (Some (XML_ELEMENT_NODE ''ListAllMyBucketsResult'' [] [])) xml_blob =
   Returns (Inr \<lparr>buckets = [], owner = None\<rparr>)"
  by (simp add: get_service_decode_def expect_root_def)

text \<open>The six operations that pass on what the executor returns, and \<open>ds3_bulk\<close>, report
  a failed transfer as \<open>FAILED_REQUEST\<close> with libcurl's text.\<close>

lemma transport_failure_reported:
  assumes "curl_handle env"
    and "net_prepare env c r read_handler write_user_struct = Returns opts"
    and "curl_easy_perform env opts = Returns (res, body)"
    and "res \<noteq> 0"
  shows "internal_request_dispatcher env w (Some c) (Some r) read_handler write_user_struct =
         Returns (w\<lparr>curl_initialized := True, exchanges := exchanges w @ [opts]\<rparr>,
                  Some \<lparr>code = DS3_ERROR_FAILED_REQUEST,
                        message = ''Request failed: '' @ curl_easy_strerror env res\<rparr>,
                  body)"
  using net_process_request_performs [OF assms(1-3), of w] assms(4)
  by (simp add: internal_request_dispatcher_def)

lemma bulk_transport_failure_reported:
  assumes "curl_handle env"
    and "object_list r = Some l" and "bulk_objects l \<noteq> []"
    and "xml_buff = xmlDocDumpFormatMemory env (bulk_request_document l)"
    and "net_prepare env c (r\<lparr>request_length := of_nat (length xml_buff)\<rparr>) True (Some xml_buff)
           = Returns opts"
    and "curl_easy_perform env opts = Returns (res, body)"
    and "res \<noteq> 0"
  shows "ds3_bulk env w (Some c) (Some r) =
         Returns (w\<lparr>curl_initialized := True, exchanges := exchanges w @ [opts]\<rparr>,
                  Inl \<lparr>code = DS3_ERROR_FAILED_REQUEST,
                       message = ''Request failed: '' @ curl_easy_strerror env res\<rparr>)"
  using net_process_request_performs [OF assms(1) assms(5) assms(6), of w] assms(2,3,4,7)
  by (simp add: ds3_bulk_def Let_def)

text \<open>
  Claim C5, at a failing transfer. The network ends the transfer with the code 7 (the
  connection could not be made) before any header or body byte arrives. The dispatcher
  returns the \<open>FAILED_REQUEST\<close> error with libcurl's text, but \<open>ds3_get_service\<close> and
  \<open>ds3_get_bucket\<close> do not look at it: they go on to parse the empty body and return
  an \<open>INVALID_XML\<close> error instead. When the transfer fails with the code 56 after a
  whole body has arrived, \<open>ds3_get_service\<close> returns the decoded listing and no error
  at all.
\<close>

theorem get_service_drops_transport_error:
  "(case internal_request_dispatcher
           (env\<lparr>curl_handle := True,
                curl_server := (\<lambda>opts. \<lparr>reply_header_lines = [], reply_body = [],
                                        reply_result = 7\<rparr>)\<rparr>)
           w (Some (client\<lparr>creds := Some cr\<rparr>)) (Some (request\<lparr>path := Some p\<rparr>)) True None of
      Returns (w', Some e, blob) \<Rightarrow>
        code e = DS3_ERROR_FAILED_REQUEST \<and>
        message e = ''Request failed: '' @ curl_easy_strerror env 7 \<and> blob = []
    | _ \<Rightarrow> False) \<and>
   (case ds3_get_service
           (env\<lparr>curl_handle := True,
                curl_server := (\<lambda>opts. \<lparr>reply_header_lines = [], reply_body = [],
                                        reply_result = 7\<rparr>)\<rparr>)
           w (Some (client\<lparr>creds := Some cr\<rparr>)) (Some (request\<lparr>path := Some p\<rparr>)) of
      Returns (w', Inl e) \<Rightarrow>
        code e = DS3_ERROR_INVALID_XML \<and>
        message e = ''Failed to parse response document.  The actual response is: ''
    | _ \<Rightarrow> False) \<and>
   (case ds3_get_bucket
           (env\<lparr>curl_handle := True,
                curl_server := (\<lambda>opts. \<lparr>reply_header_lines = [], reply_body = [],
                                        reply_result = 7\<rparr>)\<rparr>)
           w (Some (client\<lparr>creds := Some cr\<rparr>)) (Some (request\<lparr>path := Some p\<rparr>)) of
      Returns (w', Inl e) \<Rightarrow>
        code e = DS3_ERROR_INVALID_XML \<and>
        message e = ''Failed to parse response document.  The actual response is: ''
    | _ \<Rightarrow> False) \<and>
   (case ds3_get_service
           (env\<lparr>curl_handle := True,
                curl_server := (\<lambda>opts. \<lparr>reply_header_lines = [],
                                        reply_body = [''<ListAllMyBucketsResult/>''],
                                        reply_result = 56\<rparr>),
                xmlParseMemory :=
                  (\<lambda>body. Some (XML_ELEMENT_NODE ''ListAllMyBucketsResult'' [] []))\<rparr>)
           w (Some (client\<lparr>creds := Some cr\<rparr>)) (Some (request\<lparr>path := Some p\<rparr>)) of
      Returns (w', Inr response) \<Rightarrow> response = \<lparr>buckets = [], owner = None\<rparr>
    | _ \<Rightarrow> False)"
proof -
  let ?c = "client\<lparr>creds := Some cr\<rparr>" and ?r = "request\<lparr>path := Some p\<rparr>"
  let ?env = "env\<lparr>curl_handle := True,
                  curl_server := (\<lambda>opts. \<lparr>reply_header_lines = [], reply_body = [],
                                          reply_result = 7\<rparr>)\<rparr>"
  let ?env2 = "env\<lparr>curl_handle := True,
                curl_server := (\<lambda>opts. \<lparr>reply_header_lines = [],
                                        reply_body = [''<ListAllMyBucketsResult/>''],
                                        reply_result = 56\<rparr>),
                xmlParseMemory :=
                  (\<lambda>body. Some (XML_ELEMENT_NODE ''ListAllMyBucketsResult'' [] []))\<rparr>"
  obtain opts where prep: "net_prepare ?env ?c ?r True None = Returns opts"
    using net_prepare_returns [of ?c cr ?r p ?env True None] by auto
  have perf: "curl_easy_perform ?env opts = Returns (7, [])"
    by (simp add: curl_easy_perform_no_headers)
  have h: "curl_handle ?env" by simp
  have disp: "internal_request_dispatcher ?env w (Some ?c) (Some ?r) True None =
      Returns (w\<lparr>curl_initialized := True, exchanges := exchanges w @ [opts]\<rparr>,
               Some \<lparr>code = DS3_ERROR_FAILED_REQUEST,
                     message = ''Request failed: '' @ curl_easy_strerror env 7\<rparr>, [])"
    using transport_failure_reported [OF h prep perf, of w] by simp
  have p1: "xml_parse ?env [] = None" by (simp add: xml_parse_def)
  obtain opts2 where prep2: "net_prepare ?env2 ?c ?r True None = Returns opts2"
    and wd2: "opt_writedata opts2"
    using net_prepare_returns [of ?c cr ?r p ?env2 True None] by auto
  have perf2: "curl_easy_perform ?env2 opts2 = Returns (56, ''<ListAllMyBucketsResult/>'')"
    using wd2 by (simp add: curl_easy_perform_no_headers)
  have h2: "curl_handle ?env2" by simp
  have disp2: "internal_request_dispatcher ?env2 w (Some ?c) (Some ?r) True None =
      Returns (w\<lparr>curl_initialized := True, exchanges := exchanges w @ [opts2]\<rparr>,
               Some \<lparr>code = DS3_ERROR_FAILED_REQUEST,
                     message = ''Request failed: '' @ curl_easy_strerror env 56\<rparr>,
               ''<ListAllMyBucketsResult/>'')"
    using transport_failure_reported [OF h2 prep2 perf2, of w] by simp
  have p2: "xml_parse ?env2 ''<ListAllMyBucketsResult/>'' =
            Some (XML_ELEMENT_NODE ''ListAllMyBucketsResult'' [] [])"
    by (simp add: xml_parse_def)
  have a: "ds3_get_service ?env w (Some ?c) (Some ?r) =
      Returns (w\<lparr>curl_initialized := True, exchanges := exchanges w @ [opts]\<rparr>,
        Inl \<lparr>code = DS3_ERROR_INVALID_XML,
             message = ''Failed to parse response document.  The actual response is: ''\<rparr>)"
    unfolding ds3_get_service_def disp by (simp add: p1 get_service_decode_unparsed)
  have b: "ds3_get_bucket ?env w (Some ?c) (Some ?r) =
      Returns (w\<lparr>curl_initialized := True, exchanges := exchanges w @ [opts]\<rparr>,
        Inl \<lparr>code = DS3_ERROR_INVALID_XML,
             message = ''Failed to parse response document.  The actual response is: ''\<rparr>)"
    unfolding ds3_get_bucket_def disp by (simp add: p1 get_bucket_decode_unparsed)
  have c: "ds3_get_service ?env2 w (Some ?c) (Some ?r) =
      Returns (w\<lparr>curl_initialized := True, exchanges := exchanges w @ [opts2]\<rparr>,
        Inr \<lparr>buckets = [], owner = None\<rparr>)"
    unfolding ds3_get_service_def disp2 by (simp add: p2 get_service_decode_empty_listing)
  show ?thesis unfolding disp a b c by simp
qed

section \<open>Properties of the header stream parser\<close>

lemma strstr_split_SomeD: "strstr_split d s = Some (a, b) \<Longrightarrow> s = a @ d @ b"
proof (induction s arbitrary: a)
  case Nil then show ?case by (simp split: if_splits)
next
  case (Cons c cs)
  show ?case
  proof (cases "take (length d) (c # cs) = d")
    case True
    with Cons.prems have "a = []" "b = drop (length d) (c # cs)" by simp_all
    with True show ?thesis by (metis append_Nil append_take_drop_id)
  next
    case False
    with Cons.prems obtain a' where "strstr_split d cs = Some (a', b)" "a = c # a'"
      by (auto split: option.splits)
    with Cons.IH show ?thesis by simp
  qed
qed

lemma strstr_split_prefix: "strstr_split d (d @ b) = Some ([], b)"
proof (cases "d @ b")
  case Nil
  then show ?thesis by simp
next
  case (Cons c cs)
  have "take (length d) (c # cs) = d" "drop (length d) (c # cs) = b"
    unfolding Cons [symmetric] by simp_all
  then have "strstr_split d (c # cs) = Some ([], b)" by simp
  then show ?thesis unfolding Cons .
qed

lemma strstr_split_occurs: "strstr_split d (a @ d @ b) \<noteq> None"
proof (induction a)
  case Nil
  show ?case by (simp add: strstr_split_prefix)
next
  case (Cons x xs)
  then show ?case by (auto split: option.splits)
qed

lemma strstr_split_None_iff: "strstr_split d s = None \<longleftrightarrow> \<not> (\<exists>a b. s = a @ d @ b)"
proof
  assume "strstr_split d s = None"
  then show "\<not> (\<exists>a b. s = a @ d @ b)" using strstr_split_occurs by fastforce
next
  assume "\<not> (\<exists>a b. s = a @ d @ b)"
  then show "strstr_split d s = None"
    by (cases "strstr_split d s") (auto dest: strstr_split_SomeD)
qed

lemma strstr_split_char: "c \<notin> set a \<Longrightarrow> strstr_split [c] (a @ c # b) = Some (a, b)"
  by (induction a) auto

lemma strsplit_loop_nonempty: "strsplit_loop d n s \<noteq> []"
  by (cases n) (auto split: option.splits)

lemma g_strjoinv_Cons: "ts \<noteq> [] \<Longrightarrow> g_strjoinv sep (t # ts) = t @ sep @ g_strjoinv sep ts"
  by (cases ts) auto

lemma g_strjoinv_strsplit_loop: "g_strjoinv d (strsplit_loop d n s) = s"
proof (induction n arbitrary: s)
  case 0 show ?case by simp
next
  case (Suc n)
  show ?case
  proof (cases "strstr_split d s")
    case None then show ?thesis by simp
  next
    case (Some p)
    obtain tok rest where p: "p = (tok, rest)" by (cases p)
    with Some have "s = tok @ d @ rest" by (simp add: strstr_split_SomeD)
    with Some p Suc.IH show ?thesis
      by (simp add: g_strjoinv_Cons strsplit_loop_nonempty)
  qed
qed

lemma g_strsplit_no_delimiter:
  assumes "s \<noteq> []" and "\<not> (\<exists>a b. s = a @ d @ b)"
  shows "g_strsplit s d 2 = [s]"
proof -
  have "strstr_split d s = None" using assms(2) by (simp add: strstr_split_None_iff)
  moreover have "(2::nat) - 1 = Suc 0" by simp
  ultimately show ?thesis using assms(1) by (simp add: g_strsplit_def)
qed

lemma length_header_buff: "length (g_strchomp (strncpy buffer n)) \<le> length buffer"
proof -
  have "length (dropWhile P xs) \<le> length xs" for P and xs :: string
    by (simp add: length_dropWhile_le)
  then have "length (g_strchomp s) \<le> length s" for s
    unfolding g_strchomp_def by (metis length_rev)
  moreover have "length (strncpy buffer n) \<le> length buffer"
    unfolding strncpy_def
    by (metis length_takeWhile_le length_take min.cobounded1 order_trans)
  ultimately show ?thesis using order_trans by blast
qed

lemma strsplit_loop_step:
  "c \<notin> set tok \<Longrightarrow>
   strsplit_loop [c] (Suc n) (tok @ c # rest) = tok # strsplit_loop [c] n rest"
  by (simp add: strstr_split_char)

lemma g_strsplit_status_line:
  assumes "CHR '' '' \<notin> set code_str"
  shows "g_strsplit (''HTTP/1.1 '' @ code_str @ '' '' @ msg) '' '' 1000 =
         ''HTTP/1.1'' # code_str # strsplit_loop '' '' 997 msg"
proof -
  have n: "(1000::nat) - 1 = Suc (Suc 997)" by simp
  have e: "''HTTP/1.1 '' @ code_str @ '' '' @ msg =
           ''HTTP/1.1'' @ CHR '' '' # (code_str @ CHR '' '' # msg)" by simp
  have ne: "''HTTP/1.1'' @ CHR '' '' # (code_str @ CHR '' '' # msg) \<noteq> []" by simp
  have h: "CHR '' '' \<notin> set ''HTTP/1.1''" by simp
  show ?thesis
    unfolding e g_strsplit_def n
    by (simp only: ne if_False strsplit_loop_step [OF h] strsplit_loop_step [OF assms])
qed

lemma process_status_line:
  assumes "header_count response_data < 1"
    and "g_strchomp (strncpy buffer (length buffer)) = ''HTTP/1.1 '' @ code_str @ '' '' @ msg"
    and "CHR '' '' \<notin> set code_str"
  shows "process_header_line buffer response_data =
         (let status :: 64 word = word_of_int (g_ascii_strtoll code_str) in
          if status = 0 then Returns (0, response_data)
          else if status = 100 then Returns (length buffer, response_data)
          else Returns (length buffer,
                 response_data\<lparr>status_code := status, status_message := Some msg,
                                header_count := header_count response_data + 1\<rparr>))"
proof -
  define hb where "hb = ''HTTP/1.1 '' @ code_str @ '' '' @ msg"
  have chomp: "g_strchomp (strncpy buffer (length buffer)) = hb"
    using assms(2) hb_def by simp
  have split: "g_strsplit hb '' '' 1000 = ''HTTP/1.1'' # code_str # strsplit_loop '' '' 997 msg"
    unfolding hb_def using assms(3) by (rule g_strsplit_status_line)
  have join: "g_strjoinv '' '' (strsplit_loop '' '' 997 msg) = msg"
    by (rule g_strjoinv_strsplit_loop)
  have pre: "g_str_has_prefix hb ''HTTP/1.1''"
    by (simp add: hb_def g_str_has_prefix_def)
  have ne: "length hb \<noteq> 0" by (simp add: hb_def)
  have "10 \<le> length hb" by (simp add: hb_def)
  then have len: "\<not> length buffer < 2"
    using length_header_buff [of buffer "length buffer"] chomp by simp
  show ?thesis
    unfolding process_header_line_def
    using assms(1) ne len
    by (simp add: Let_def chomp split join pre strv_nth_def)
qed

text \<open>
  Claim C3, as amended. The status line \<open>HTTP/1.1 200 OK\<close> gives the status code 200
  and the message \<open>OK\<close>. The line \<open>HTTP/1.1 100 Continue\<close> leaves the response data
  as they were, whatever they hold before a status line was taken, and followed by
  \<open>HTTP/1.1 201 Created\<close> it ends with the code 201 and the message \<open>Created\<close>. In
  general, for a line that reads, without its trailing white space, \<open>HTTP/1.1\<close>, a
  space, a code without a space, a space and a rest, and whose code is neither 0 nor
  100: the status message is the rest, unchanged. The rest is what joining by single
  spaces makes of the tokens that splitting at every single space gives, so a tab or a
  run of spaces inside the message stays as it is.
\<close>

theorem status_line_parsing:
  assumes "header_count response_data < 1"
    and "g_strchomp (strncpy buffer (length buffer)) = ''HTTP/1.1 '' @ code_str @ '' '' @ msg"
    and "CHR '' '' \<notin> set code_str"
    and "status = word_of_int (g_ascii_strtoll code_str)"
    and "status \<noteq> 0" and "status \<noteq> 100"
  shows
   "process_header_line ''HTTP/1.1 200 OK'' response_data_init =
      Returns (15, response_data_init
                     \<lparr>status_code := 200, status_message := Some ''OK'', header_count := 1\<rparr>) \<and>
    process_header_line ''HTTP/1.1 100 Continue'' response_data_init =
      Returns (21, response_data_init) \<and>
    feed_header_lines [''HTTP/1.1 100 Continue'', ''HTTP/1.1 201 Created''] response_data_init =
      Returns (True, response_data_init
                       \<lparr>status_code := 201, status_message := Some ''Created'',
                        header_count := 1\<rparr>) \<and>
    process_header_line ''HTTP/1.1 100 Continue'' response_data =
      Returns (21, response_data) \<and>
    process_header_line buffer response_data =
      Returns (length buffer,
               response_data\<lparr>status_code := status, status_message := Some msg,
                              header_count := header_count response_data + 1\<rparr>) \<and>
    g_strjoinv '' '' (drop 2 (g_strsplit (''HTTP/1.1 '' @ code_str @ '' '' @ msg) '' '' 1000)) = msg"
proof -
  have c1: "process_header_line ''HTTP/1.1 200 OK'' response_data_init =
      Returns (15, response_data_init
                     \<lparr>status_code := 200, status_message := Some ''OK'', header_count := 1\<rparr>)"
    by code_simp
  have c2: "process_header_line ''HTTP/1.1 100 Continue'' response_data_init =
      Returns (21, response_data_init)"
    by code_simp
  have c3: "feed_header_lines [''HTTP/1.1 100 Continue'', ''HTTP/1.1 201 Created'']
      response_data_init =
      Returns (True, response_data_init
                       \<lparr>status_code := 201, status_message := Some ''Created'',
                        header_count := 1\<rparr>)"
    by code_simp
  have hb100: "g_strchomp (strncpy ''HTTP/1.1 100 Continue'' (length ''HTTP/1.1 100 Continue'')) =
               ''HTTP/1.1 '' @ ''100'' @ '' '' @ ''Continue''"
    by code_simp
  have v100: "(word_of_int (g_ascii_strtoll ''100'') :: 64 word) = 100" by code_simp
  have "CHR '' '' \<notin> set ''100''" by simp
  from process_status_line [OF assms(1) hb100 this]
  have c4: "process_header_line ''HTTP/1.1 100 Continue'' response_data =
      Returns (21, response_data)"
    by (simp add: v100)
  have c5: "process_header_line buffer response_data =
      Returns (length buffer,
               response_data\<lparr>status_code := status, status_message := Some msg,
                              header_count := header_count response_data + 1\<rparr>)"
    using process_status_line [OF assms(1,2,3)] assms(5,6)
    by (simp add: Let_def assms(4) [symmetric])
  have join: "g_strjoinv '' '' (drop 2 (g_strsplit (''HTTP/1.1 '' @ code_str @ '' '' @ msg) '' '' 1000)) = msg"
    unfolding g_strsplit_status_line [OF assms(3)] by (simp add: g_strjoinv_strsplit_loop)
  from c1 c2 c3 c4 c5 join show ?thesis by simp
qed

text \<open>The general part of the theorem at the line \<open>HTTP/1.1 404 Not Found\<close> with its
  line end.\<close>

theorem status_line_parsing_witness:
  "process_header_line (''HTTP/1.1 404 Not Found'' @ [CHR 0x0D, CHR 0x0A]) response_data_init =
     Returns (24, response_data_init
                    \<lparr>status_code := 404, status_message := Some ''Not Found'',
                     header_count := 1\<rparr>)"
proof -
  let ?b = "''HTTP/1.1 404 Not Found'' @ [CHR 0x0D, CHR 0x0A]"
  have h1: "header_count response_data_init < 1" by (simp add: response_data_init_def)
  have h2: "g_strchomp (strncpy ?b (length ?b)) = ''HTTP/1.1 '' @ ''404'' @ '' '' @ ''Not Found''"
    by code_simp
  have h3: "CHR '' '' \<notin> set ''404''" by simp
  have h4: "(404 :: 64 word) = word_of_int (g_ascii_strtoll ''404'')" by code_simp
  have h5: "(404 :: 64 word) \<noteq> 0" and h6: "(404 :: 64 word) \<noteq> 100" by simp_all
  from status_line_parsing [OF h1 h2 h3 h4 h5 h6]
  show ?thesis by (simp add: response_data_init_def)
qed

text \<open>
  As the specification words it, the property fails where the words of the message are
  separated by other white space than one space: after \<open>HTTP/1.1 404\<close>, the words
  \<open>Not\<close> and \<open>Found\<close> separated by a tab or by two spaces give a message that
  keeps the tab or both spaces, while the tokens between white space, joined by single
  spaces, give \<open>Not Found\<close>.
\<close>

theorem status_message_counterexample:
  "process_header_line (''HTTP/1.1 404 Not'' @ [CHR 0x09] @ ''Found'') response_data_init =
     Returns (22, response_data_init
                    \<lparr>status_code := 404,
                     status_message := Some (''Not'' @ [CHR 0x09] @ ''Found''),
                     header_count := 1\<rparr>) \<and>
   spec_status_message (''HTTP/1.1 404 Not'' @ [CHR 0x09] @ ''Found'') = ''Not Found'' \<and>
   ''Not'' @ [CHR 0x09] @ ''Found'' \<noteq> ''Not Found'' \<and>
   process_header_line ''HTTP/1.1 404 Not  Found'' response_data_init =
     Returns (23, response_data_init
                    \<lparr>status_code := 404, status_message := Some ''Not  Found'',
                     header_count := 1\<rparr>) \<and>
   spec_status_message ''HTTP/1.1 404 Not  Found'' = ''Not Found'' \<and>
   ''Not  Found'' \<noteq> ''Not Found''"
  by code_simp

text \<open>
  Claim C10. A line that arrives after the status line was taken, that is not empty
  once its trailing white space is removed and that holds no colon followed by a space:
  \<open>g_strsplit\<close> gives one token, the second entry of the vector is \<open>NULL\<close>, and the
  parser calls \<open>strlen\<close> on it. Such a line is not handled: the call neither accepts
  nor rejects the line.
\<close>

theorem header_line_without_separator:
  assumes "1 \<le> header_count response_data"
    and "2 \<le> length buffer"
    and "header_buff = g_strchomp (strncpy buffer (length buffer))"
    and "header_buff \<noteq> []"
    and "\<not> (\<exists>a b. header_buff = a @ '': '' @ b)"
  shows "g_strsplit header_buff '': '' 2 = [header_buff] \<and>
         strv_nth (g_strsplit header_buff '': '' 2) 1 = None \<and>
         process_header_line buffer response_data = Undefined_Behaviour"
proof -
  have split: "g_strsplit header_buff '': '' 2 = [header_buff]"
    using assms(4,5) by (rule g_strsplit_no_delimiter)
  have nth1: "strv_nth [header_buff] 1 = None" by (simp add: strv_nth_def)
  have nth0: "strv_nth [header_buff] 0 = Some header_buff" by (simp add: strv_nth_def)
  have "process_header_line buffer response_data = Undefined_Behaviour"
    using assms(1,2,4) split nth0 nth1
    by (simp add: process_header_line_def Let_def assms(3) [symmetric])
  with split nth1 show ?thesis by simp
qed

text \<open>The line \<open>Server\<close> with its line end, after the status line \<open>HTTP/1.1 200 OK\<close>.\<close>

theorem header_line_without_separator_witness:
  "process_header_line (''Server'' @ [CHR 0x0D, CHR 0x0A])
     (response_data_init\<lparr>status_code := 200, status_message := Some ''OK'', header_count := 1\<rparr>)
   = Undefined_Behaviour"
proof -
  let ?rd = "response_data_init\<lparr>status_code := 200, status_message := Some ''OK'', header_count := 1\<rparr>"
  let ?b = "''Server'' @ [CHR 0x0D, CHR 0x0A]"
  have hb: "''Server'' = g_strchomp (strncpy ?b (length ?b))"
    by (simp add: g_strchomp_def strncpy_def g_ascii_isspace_def)
  have "strstr_split '': '' ''Server'' = None" by simp
  then have no: "\<not> (\<exists>a b. ''Server'' = a @ '': '' @ b)"
    unfolding strstr_split_None_iff .
  have "1 \<le> header_count ?rd" "2 \<le> length ?b" "''Server'' \<noteq> []" by simp_all
  from header_line_without_separator [OF this(1) this(2) hb this(3) no]
  show ?thesis by simp
qed

text \<open>
  A header name that comes twice: the second line replaces the value, and the table is
  left with a key that was freed with the first header. A third line of the same name
  makes the table compare its key with the freed one.
\<close>

lemma repeated_header_name:
  "feed_header_lines
     [''HTTP/1.1 200 OK'' @ [CHR 0x0D, CHR 0x0A],
      ''Set-Cookie: a=1'' @ [CHR 0x0D, CHR 0x0A],
      ''Set-Cookie: b=2'' @ [CHR 0x0D, CHR 0x0A]] response_data_init =
     Returns (True,
       \<lparr>status_code = 200, status_message = Some ''OK'', header_count = 3,
        headers = [(''Set-Cookie'', ''b=2'')], freed_keys = [''Set-Cookie'']\<rparr>) \<and>
   feed_header_lines
     [''HTTP/1.1 200 OK'' @ [CHR 0x0D, CHR 0x0A],
      ''Set-Cookie: a=1'' @ [CHR 0x0D, CHR 0x0A],
      ''Set-Cookie: b=2'' @ [CHR 0x0D, CHR 0x0A],
      ''Set-Cookie: c=3'' @ [CHR 0x0D, CHR 0x0A]] response_data_init =
     Undefined_Behaviour"
  by code_simp

section \<open>Properties of the XML codec\<close>

subsection \<open>Rejected documents\<close>

lemma expect_root_accepts:
  "node_name root = root_name \<Longrightarrow>
   expect_root (Some root) xml_blob root_name mismatch = Returns (Inr root)"
  by (simp add: expect_root_def)

lemma expect_root_rejects:
  assumes "doc = None \<or> (\<exists>root. doc = Some root \<and> node_name root \<noteq> root_name)"
  shows "expect_root doc xml_blob root_name mismatch =
     (case blob_data xml_blob of
        Undefined_Behaviour \<Rightarrow> Undefined_Behaviour
      | Returns data \<Rightarrow>
          Returns (Inl \<lparr>code = DS3_ERROR_INVALID_XML,
                        message =
                          g_strconcat
                            [Some (if doc = None
                                   then ''Failed to parse response document.  The actual response is: ''
                                   else mismatch),
                             data]\<rparr>))"
  using assms
  by (auto simp: expect_root_def invalid_xml_error_def ds3_create_error_def
           split: exec.splits)

text \<open>What the decoding operations do meet: with the expected root element no error is
  returned, whatever the document holds below the root.\<close>

lemma decode_accepts_expected_root:
  "node_name root = ''ListAllMyBucketsResult'' \<Longrightarrow>
     \<not> (\<exists>e. get_service_decode (Some root) xml_blob = Returns (Inl e))"
  "node_name root = ''ListBucketResult'' \<Longrightarrow>
     \<not> (\<exists>e. get_bucket_decode (Some root) xml_blob = Returns (Inl e))"
  "node_name root = ''MasterObjectList'' \<Longrightarrow>
     \<not> (\<exists>e. bulk_decode (Some root) xml_blob = Returns (Inl e))"
  by (auto simp: get_service_decode_def get_bucket_decode_def bulk_decode_def
        expect_root_accepts Let_def split: exec.splits)

text \<open>A child element or an attribute whose name is none of the names the decoders look
  for is skipped: the loop body returns what it was given.\<close>

lemma unrecognised_skipped:
  assumes "nm \<notin> set [''Buckets'', ''Owner'', ''Contents'', ''CreationDate'', ''IsTruncated'',
                       ''Marker'', ''MaxKeys'', ''Name'', ''Delimiter'', ''NextMarker'',
                       ''Prefix'', ''Key'', ''ETag'', ''LastModified'', ''StorageClass'',
                       ''Size'', ''DisplayName'', ''ID'', ''ServerId'', ''ChunkNumber'']"
    and "node_name child = nm" and "fst attribute = nm"
  shows "get_service_child child service_response = Returns service_response"
    and "parse_bucket_child child bucket = Returns bucket"
    and "parse_owner_child child own = Returns own"
    and "get_bucket_child child bucket_response = Returns bucket_response"
    and "parse_object_child child object = Returns object"
    and "parse_bulk_object_attr attribute bulk_object = bulk_object"
    and "parse_bulk_objects_attr attribute bulk_list = bulk_list"
  using assms
  by (auto simp: get_service_child_def parse_bucket_child_def parse_owner_child_def
        get_bucket_child_def parse_object_child_def parse_bulk_object_attr_def
        parse_bulk_objects_attr_def)

text \<open>A rejected body that is empty, or that holds a NUL byte, gives the error; its
  message ends where the body has its first NUL byte.\<close>

lemma decode_rejects_terminated_body:
  assumes "xml_blob = [] \<or> CHR 0x00 \<in> set xml_blob"
    and "doc = None \<or> (\<exists>root. doc = Some root \<and> node_name root \<noteq> root_name)"
  shows "\<exists>text_before. expect_root doc xml_blob root_name mismatch =
     Returns (Inl \<lparr>code = DS3_ERROR_INVALID_XML,
                   message = text_before @ takeWhile (\<lambda>c. c \<noteq> CHR 0x00) xml_blob\<rparr>)"
  using assms(1) unfolding expect_root_rejects [OF assms(2)]
  by (auto simp: blob_data_def)

text \<open>A rejected body that is not empty and holds no NUL byte: the message is built by
  reading past the body.\<close>

lemma decode_rejects_unterminated_body:
  assumes "xml_blob \<noteq> []" and "CHR 0x00 \<notin> set xml_blob"
    and "doc = None \<or> (\<exists>root. doc = Some root \<and> node_name root \<noteq> root_name)"
  shows "expect_root doc xml_blob root_name mismatch = Undefined_Behaviour"
  using assms(1,2) unfolding expect_root_rejects [OF assms(3)]
  by (simp add: blob_data_def)

text \<open>
  Claim C6, at the response body \<open><Error/>\<close>. The body is parsed, and its root element
  is not the expected one; or it is some text that cannot be parsed. Each of the three
  decoding operations then builds the message of the \<open>INVALID_XML\<close> error with
  \<open>g_strconcat\<close> from the bytes of the body, which have no NUL byte after them: the
  call reads past the body, and the operation has no defined result. So it is for
  \<open>ds3_get_service\<close> as a whole, when the transfer succeeds and the server answers
  with this body.
\<close>

theorem invalid_xml_message_overread:
  "get_service_decode (Some (XML_ELEMENT_NODE ''Error'' [] [])) ''<Error/>'' =
     Undefined_Behaviour \<and>
   get_bucket_decode (Some (XML_ELEMENT_NODE ''Error'' [] [])) ''<Error/>'' =
     Undefined_Behaviour \<and>
   bulk_decode (Some (XML_ELEMENT_NODE ''Error'' [] [])) ''<Error/>'' =
     Undefined_Behaviour \<and>
   get_service_decode None ''not xml'' = Undefined_Behaviour \<and>
   get_bucket_decode None ''not xml'' = Undefined_Behaviour \<and>
   bulk_decode None ''not xml'' = Undefined_Behaviour \<and>
   ds3_get_service
     (env\<lparr>curl_handle := True,
          curl_server := (\<lambda>opts. \<lparr>reply_header_lines = [], reply_body = [''<Error/>''],
                                  reply_result = 0\<rparr>),
          xmlParseMemory := (\<lambda>body. Some (XML_ELEMENT_NODE ''Error'' [] []))\<rparr>)
     w (Some (client\<lparr>creds := Some cr\<rparr>)) (Some (request\<lparr>path := Some p\<rparr>)) =
     Undefined_Behaviour"
proof -
  let ?c = "client\<lparr>creds := Some cr\<rparr>" and ?r = "request\<lparr>path := Some p\<rparr>"
  let ?env = "env\<lparr>curl_handle := True,
          curl_server := (\<lambda>opts. \<lparr>reply_header_lines = [], reply_body = [''<Error/>''],
                                  reply_result = 0\<rparr>),
          xmlParseMemory := (\<lambda>body. Some (XML_ELEMENT_NODE ''Error'' [] []))\<rparr>"
  let ?doc = "Some (XML_ELEMENT_NODE ''Error'' [] [])"
  have ne: "''<Error/>'' \<noteq> []" "CHR 0x00 \<notin> set ''<Error/>''"
    "''not xml'' \<noteq> []" "CHR 0x00 \<notin> set ''not xml''" by simp_all
  have bad: "?doc = None \<or> (\<exists>root. ?doc = Some root \<and> node_name root \<noteq> nm)"
    if "nm \<noteq> ''Error''" for nm using that by auto
  have a: "get_service_decode ?doc ''<Error/>'' = Undefined_Behaviour"
    unfolding get_service_decode_def
    by (simp add: decode_rejects_unterminated_body [OF ne(1,2) bad])
  have b: "get_bucket_decode ?doc ''<Error/>'' = Undefined_Behaviour"
    unfolding get_bucket_decode_def
    by (simp add: decode_rejects_unterminated_body [OF ne(1,2) bad])
  have c: "bulk_decode ?doc ''<Error/>'' = Undefined_Behaviour"
    unfolding bulk_decode_def
    by (simp add: decode_rejects_unterminated_body [OF ne(1,2) bad])
  have n: "expect_root None ''not xml'' nm mismatch = Undefined_Behaviour" for nm mismatch
    by (rule decode_rejects_unterminated_body [OF ne(3,4)]) simp
  have d: "get_service_decode None ''not xml'' = Undefined_Behaviour"
    "get_bucket_decode None ''not xml'' = Undefined_Behaviour"
    "bulk_decode None ''not xml'' = Undefined_Behaviour"
    by (simp_all add: get_service_decode_def get_bucket_decode_def bulk_decode_def n)
  obtain opts where prep: "net_prepare ?env ?c ?r True None = Returns opts"
    and wd: "opt_writedata opts"
    using net_prepare_returns [of ?c cr ?r p ?env True None] by auto
  have perf: "curl_easy_perform ?env opts = Returns (0, ''<Error/>'')"
    using wd by (simp add: curl_easy_perform_no_headers)
  have h: "curl_handle ?env" by simp
  have disp: "internal_request_dispatcher ?env w (Some ?c) (Some ?r) True None =
      Returns (w\<lparr>curl_initialized := True, exchanges := exchanges w @ [opts]\<rparr>, None,
               ''<Error/>'')"
    using net_process_request_performs [OF h prep perf, of w]
    by (simp add: internal_request_dispatcher_def)
  have ps: "xml_parse ?env ''<Error/>'' = ?doc" by (simp add: xml_parse_def)
  have e: "ds3_get_service ?env w (Some ?c) (Some ?r) = Undefined_Behaviour"
    unfolding ds3_get_service_def disp by (simp add: ps a)
  from a b c d e show ?thesis by simp
qed

subsection \<open>The truncated flag\<close>

lemma get_bucket_child_is_truncated:
  assumes "get_bucket_child child_node response = Returns response'"
  shows "is_truncated response' =
         (case truncated_text child_node of
            None \<Rightarrow> is_truncated response
          | Some t \<Rightarrow> take 4 t = ''true'')"
proof (cases "node_name child_node = ''IsTruncated''")
  case True
  with assms show ?thesis
    by (auto simp: get_bucket_child_def truncated_text_def strncmp_eq_def
             split: option.splits if_splits)
next
  case False
  with assms show ?thesis
    by (auto simp: get_bucket_child_def truncated_text_def
             split: option.splits if_splits exec.splits)
qed

lemma exec_fold_is_truncated:
  "exec_fold get_bucket_child nodes response = Returns response' \<Longrightarrow>
   is_truncated response' =
     (case List.map_filter truncated_text nodes of
        [] \<Rightarrow> is_truncated response
      | t # ts \<Rightarrow> take 4 (last (t # ts)) = ''true'')"
proof (induction nodes arbitrary: response)
  case Nil
  then show ?case by (simp add: List.map_filter_simps)
next
  case (Cons n nodes)
  from Cons.prems obtain r1 where r1: "get_bucket_child n response = Returns r1"
    and rest: "exec_fold get_bucket_child nodes r1 = Returns response'"
    by (auto split: exec.splits)
  note ih = Cons.IH [OF rest]
  note step = get_bucket_child_is_truncated [OF r1]
  show ?case
  proof (cases "List.map_filter truncated_text nodes")
    case Nil
    with ih step show ?thesis
      by (cases "truncated_text n") (simp_all add: List.map_filter_simps)
  next
    case (Cons t ts)
    with ih show ?thesis
      by (cases "truncated_text n") (simp_all add: List.map_filter_simps)
  qed
qed

text \<open>
  Claim C9, as amended. For every bucket listing that is decoded, the truncated flag is
  true exactly when the text of the last \<open>IsTruncated\<close> element that has a text
  starts with the four bytes \<open>true\<close>; it is false when no \<open>IsTruncated\<close> element
  has a text.
\<close>

theorem is_truncated_by_prefix:
  assumes "get_bucket_decode (Some root) xml_blob = Returns (Inr response)"
  shows "is_truncated response =
         (case truncated_texts root of
            [] \<Rightarrow> False
          | t # ts \<Rightarrow> take 4 (last (t # ts)) = ''true'')"
proof -
  from assms have "exec_fold get_bucket_child (xmlChildrenNode root) get_bucket_response_init =
      Returns response"
    by (auto simp: get_bucket_decode_def expect_root_def
             split: if_splits exec.splits sum.splits)
  from exec_fold_is_truncated [OF this]
  have "is_truncated response =
     (case List.map_filter truncated_text (xmlChildrenNode root) of
        [] \<Rightarrow> is_truncated get_bucket_response_init
      | t # ts \<Rightarrow> take 4 (last (t # ts)) = ''true'')" .
  then show ?thesis
    by (simp add: truncated_texts_def get_bucket_response_init_def split: list.splits)
qed

text \<open>A listing with three \<open>IsTruncated\<close> elements: \<open>false\<close>, one without text, and
  \<open>true\<close>.\<close>

theorem is_truncated_by_prefix_witness:
  "is_truncated
     (get_bucket_response_init\<lparr>name := Some ''b1'', is_truncated := True\<rparr>) =
   (take 4 (last [''false'', ''true'']) = ''true'')"
proof -
  let ?root = "XML_ELEMENT_NODE ''ListBucketResult'' []
     [XML_ELEMENT_NODE ''Name'' [] [XML_TEXT_NODE ''b1''],
      XML_ELEMENT_NODE ''IsTruncated'' [] [XML_TEXT_NODE ''false''],
      XML_ELEMENT_NODE ''IsTruncated'' [] [],
      XML_ELEMENT_NODE ''IsTruncated'' [] [XML_TEXT_NODE ''true'']]"
  have d: "get_bucket_decode (Some ?root) ''<ListBucketResult/>'' =
      Returns (Inr (get_bucket_response_init\<lparr>name := Some ''b1'', is_truncated := True\<rparr>))"
    by code_simp
  have t: "truncated_texts ?root = [''false'', ''true'']" by code_simp
  from is_truncated_by_prefix [OF d] show ?thesis unfolding t by simp
qed

text \<open>
  As the specification words it, the property fails for a text that starts with
  \<open>true\<close> and goes on: the comparison is \<open>strncmp\<close> over four bytes, so the
  text \<open>truely\<close> gives a true flag.
\<close>

theorem is_truncated_counterexample:
  "get_bucket_decode
     (Some (XML_ELEMENT_NODE ''ListBucketResult'' []
        [XML_ELEMENT_NODE ''IsTruncated'' [] [XML_TEXT_NODE ''truely'']]))
     ''<ListBucketResult><IsTruncated>truely</IsTruncated></ListBucketResult>'' =
   Returns (Inr (get_bucket_response_init\<lparr>is_truncated := True\<rparr>)) \<and>
   ''truely'' \<noteq> ''true''"
  by code_simp

subsection \<open>The bulk manifest\<close>

lemma of_char_char_of_digit: "0 \<le> d \<Longrightarrow> d < 10 \<Longrightarrow> (of_char (char_of_digit d) :: int) = 48 + d"
  by (simp add: char_of_digit_def)

lemma isdigit_char_of_digit: "0 \<le> d \<Longrightarrow> d < 10 \<Longrightarrow> isdigit (char_of_digit d)"
  by (simp add: isdigit_def of_char_char_of_digit)

lemma digit_of_char_of_digit: "0 \<le> d \<Longrightarrow> d < 10 \<Longrightarrow> digit_of (char_of_digit d) = d"
  by (simp add: digit_of_def of_char_char_of_digit)

lemma isdigit_plain:
  assumes "isdigit c"
  shows "\<not> isspace c" and "c \<noteq> CHR ''-''" and "c \<noteq> CHR ''+''"
  using assms by (auto simp: isdigit_def isspace_def g_ascii_isspace_def)

lemma decimal_digits: "0 \<le> n \<Longrightarrow> c \<in> set (decimal n) \<Longrightarrow> isdigit c"
proof (induction n arbitrary: c rule: decimal.induct)
  case (1 n)
  show ?case
  proof (cases "n < 10")
    case True
    with "1.prems" show ?thesis
      by (simp add: decimal.simps [of n] isdigit_char_of_digit)
  next
    case False
    with "1.prems" have "c \<in> set (decimal (n div 10)) \<or> c = char_of_digit (n mod 10)"
      by (auto simp: decimal.simps [of n])
    then show ?thesis
    proof
      assume "c \<in> set (decimal (n div 10))"
      with "1.IH" [OF False] "1.prems"(1) show ?thesis by simp
    next
      assume "c = char_of_digit (n mod 10)"
      then show ?thesis by (simp add: isdigit_char_of_digit)
    qed
  qed
qed

lemma decimal_nonempty: "decimal n \<noteq> []"
  by (subst decimal.simps) simp

lemma digits_value_snoc: "digits_value (ds @ [c]) = 10 * digits_value ds + digit_of c"
  by (simp add: digits_value_def)

lemma digits_value_decimal: "0 \<le> n \<Longrightarrow> digits_value (decimal n) = n"
proof (induction n rule: decimal.induct)
  case (1 n)
  show ?case
  proof (cases "n < 10")
    case True
    with "1.prems" show ?thesis
      by (simp add: decimal.simps [of n] digits_value_def digit_of_char_of_digit)
  next
    case False
    with "1.prems" "1.IH" have "digits_value (decimal (n div 10)) = n div 10" by simp
    with False show ?thesis
      by (simp add: decimal.simps [of n] digits_value_snoc digit_of_char_of_digit)
  qed
qed

lemma length_decimal: "0 \<le> n \<Longrightarrow> n < 10 ^ k \<Longrightarrow> 0 < k \<Longrightarrow> length (decimal n) \<le> k"
proof (induction n arbitrary: k rule: decimal.induct)
  case (1 n)
  show ?case
  proof (cases "n < 10")
    case True
    with "1.prems" show ?thesis by (simp add: decimal.simps [of n])
  next
    case False
    from "1.prems" obtain j where k: "k = Suc j" by (cases k) auto
    with False "1.prems" have j: "0 < j" by (cases j) auto
    from "1.prems" k have "n div 10 < 10 ^ j" by simp
    with "1.IH" [OF False _ _ j] "1.prems"(1) have "length (decimal (n div 10)) \<le> j" by simp
    with False k show ?thesis by (simp add: decimal.simps [of n])
  qed
qed

lemma strtoul_decimal:
  assumes "0 \<le> n" and "n < 2 ^ 64"
  shows "strtoul (decimal n) = word_of_int n"
    and "strtoul (CHR ''-'' # decimal n) = - word_of_int n"
proof -
  obtain d ds where dec: "decimal n = d # ds"
    using decimal_nonempty [of n] by (cases "decimal n") auto
  have all: "\<forall>c \<in> set (decimal n). isdigit c"
    using assms(1) decimal_digits by blast
  then have d: "isdigit d" using dec by simp
  have tw: "takeWhile isdigit (decimal n) = decimal n"
    using all by (simp add: takeWhile_eq_all_conv)
  have v: "digits_value (decimal n) = n" using assms(1) by (rule digits_value_decimal)
  have "strip_sign (dropWhile isspace (decimal n)) = (False, decimal n)"
    using isdigit_plain [OF d] by (simp add: dec)
  then show "strtoul (decimal n) = word_of_int n"
    using assms(2) by (simp add: strtoul_def tw v)
  have "strip_sign (dropWhile isspace (CHR ''-'' # decimal n)) = (True, decimal n)"
    by (simp add: isspace_def g_ascii_isspace_def)
  then show "strtoul (CHR ''-'' # decimal n) = - word_of_int n"
    using assms(2) by (simp add: strtoul_def tw v)
qed

lemma strtoul_snprintf_ld: "strtoul (snprintf_ld x) = x"
proof -
  have range: "- (2 ^ 63) \<le> sint x" "sint x < 2 ^ 63"
    using sint_range_size [of x] by (simp_all add: word_size)
  show ?thesis
  proof (cases "sint x < 0")
    case True
    let ?m = "- sint x"
    have m: "0 \<le> ?m" "?m < 10 ^ 19" "?m < 2 ^ 64" using True range by simp_all
    have "length (decimal ?m) \<le> 19" using m(1,2) by (rule length_decimal) simp
    then have "snprintf_ld x = CHR ''-'' # decimal ?m"
      using True by (simp add: snprintf_ld_def)
    then show ?thesis using strtoul_decimal(2) [OF m(1) m(3)] by simp
  next
    case False
    let ?m = "sint x"
    have m: "0 \<le> ?m" "?m < 10 ^ 19" "?m < 2 ^ 64" using False range by simp_all
    have "length (decimal ?m) \<le> 19" using m(1,2) by (rule length_decimal) simp
    then have "snprintf_ld x = decimal ?m"
      using False by (simp add: snprintf_ld_def)
    then show ?thesis using strtoul_decimal(1) [OF m(1) m(3)] by simp
  qed
qed

lemma xmlNodeListGetString_attr_children: "xmlNodeListGetString (attr_children v) = v"
  by (cases v) (simp_all add: xmlNodeListGetString_def attr_children_def List.map_filter_simps)

lemma bulk_object_node_eq:
  "bulk_object_node obj =
   XML_ELEMENT_NODE ''Object''
     [(''Name'', attr_children (bulk_object_name obj)),
      (''Size'', attr_children (Some (snprintf_ld (bulk_object_size obj))))] []"
  by (simp add: bulk_object_node_def xmlNewNode_def)

lemma parse_bulk_object_node: "parse_bulk_object (bulk_object_node obj) = obj"
proof -
  have "parse_bulk_object (bulk_object_node obj) =
        \<lparr>bulk_object_name = bulk_object_name obj, bulk_object_size = bulk_object_size obj\<rparr>"
    unfolding bulk_object_node_eq parse_bulk_object_def
    by (cases "bulk_object_name obj")
       (simp_all add: parse_bulk_object_attr_def xmlNodeListGetString_attr_children
          strtoul_snprintf_ld)
  then show ?thesis by simp
qed

lemma node_name_bulk_object_node: "node_name (bulk_object_node obj) = ''Object''"
  by (simp add: bulk_object_node_eq)

lemma bulk_objects_node_eq:
  "bulk_objects_node obj_list =
   XML_ELEMENT_NODE ''Objects'' [] (map bulk_object_node (bulk_objects obj_list))"
proof -
  have "foldl (\<lambda>objects_node obj. xmlAddChild objects_node (bulk_object_node obj))
          (XML_ELEMENT_NODE ''Objects'' [] cs) objs =
        XML_ELEMENT_NODE ''Objects'' [] (cs @ map bulk_object_node objs)" for cs objs
    by (induction objs arbitrary: cs) simp_all
  from this [of "[]"] show ?thesis by (simp add: bulk_objects_node_def xmlNewNode_def)
qed

lemma collect_bulk_objects:
  "foldl (\<lambda>array child_node.
            if node_name child_node = ''Object''
            then array @ [parse_bulk_object child_node] else array)
     acc (map bulk_object_node objs) = acc @ objs"
  by (induction objs arbitrary: acc)
     (simp_all add: node_name_bulk_object_node parse_bulk_object_node)

lemma collect_bulk_objects_filter:
  "foldl (\<lambda>array child_node.
            if node_name child_node = ''Object''
            then array @ [parse_bulk_object child_node] else array)
     acc cs =
   acc @ map parse_bulk_object (filter (\<lambda>n. node_name n = ''Object'') cs)"
  by (induction cs arbitrary: acc) simp_all

text \<open>
  Claim C7. For every list of bulk objects, the \<open>Objects\<close> node that \<open>ds3_bulk\<close>
  builds for the request, decoded by \<open>_parse_bulk_objects\<close>, gives the same objects:
  as many, with the same names and sizes, in the same order, and no server id or chunk
  number. The same holds for the whole request document decoded as a response, and for
  every \<open>Objects\<close> node whose children named \<open>Object\<close> are the ones built, with
  anything else between them, such as the white-space text nodes that a formatted
  document has when it is parsed again. A size is written with \<open>%ld\<close> and read with
  \<open>strtoul\<close>: a size of \<open>2^63\<close> or more is written as a negative number, and
  \<open>strtoul\<close> reads it back as the same 64 bits. (Between the two trees, on the wire,
  stand the serialiser and the parser of libxml2, which are not code of this program.)
\<close>

theorem bulk_manifest_round_trip:
  assumes "filter (\<lambda>n. node_name n = ''Object'') cs =
           xmlChildrenNode (bulk_objects_node obj_list)"
  shows
  "parse_bulk_objects (bulk_objects_node obj_list) =
     \<lparr>bulk_objects = bulk_objects obj_list, server_id = None, chunk_number = 0\<rparr> \<and>
   length (bulk_objects (parse_bulk_objects (bulk_objects_node obj_list))) =
     length (bulk_objects obj_list) \<and>
   map bulk_object_name (bulk_objects (parse_bulk_objects (bulk_objects_node obj_list))) =
     map bulk_object_name (bulk_objects obj_list) \<and>
   map bulk_object_size (bulk_objects (parse_bulk_objects (bulk_objects_node obj_list))) =
     map bulk_object_size (bulk_objects obj_list) \<and>
   bulk_decode (Some (bulk_request_document obj_list)) xml_blob =
     Returns (Inr \<lparr>job_id = None,
                  bulk_lists = [\<lparr>bulk_objects = bulk_objects obj_list, server_id = None,
                                 chunk_number = 0\<rparr>]\<rparr>) \<and>
   parse_bulk_objects (XML_ELEMENT_NODE ''Objects'' [] cs) =
     \<lparr>bulk_objects = bulk_objects obj_list, server_id = None, chunk_number = 0\<rparr> \<and>
   strtoul (snprintf_ld x) = x"
proof -
  have a: "parse_bulk_objects (bulk_objects_node obj_list) =
     \<lparr>bulk_objects = bulk_objects obj_list, server_id = None, chunk_number = 0\<rparr>"
    unfolding bulk_objects_node_eq parse_bulk_objects_def
    by (simp add: collect_bulk_objects)
  have doc: "bulk_request_document obj_list =
     XML_ELEMENT_NODE ''MasterObjectList'' [] [bulk_objects_node obj_list]"
    by (simp add: bulk_request_document_def xmlNewNode_def)
  have nm: "node_name (bulk_objects_node obj_list) = ''Objects''"
    by (simp add: bulk_objects_node_eq)
  have b: "bulk_decode (Some (bulk_request_document obj_list)) xml_blob =
     Returns (Inr \<lparr>job_id = None,
                  bulk_lists = [\<lparr>bulk_objects = bulk_objects obj_list, server_id = None,
                                 chunk_number = 0\<rparr>]\<rparr>)"
    unfolding doc by (simp add: bulk_decode_def expect_root_def nm a)
  have f: "filter (\<lambda>n. node_name n = ''Object'') cs =
           map bulk_object_node (bulk_objects obj_list)"
    using assms by (simp add: bulk_objects_node_eq)
  have c: "parse_bulk_objects (XML_ELEMENT_NODE ''Objects'' [] cs) =
     \<lparr>bulk_objects = bulk_objects obj_list, server_id = None, chunk_number = 0\<rparr>"
    unfolding parse_bulk_objects_def
    by (simp add: collect_bulk_objects_filter f parse_bulk_object_node comp_def)
  show ?thesis unfolding a b c by (simp add: strtoul_snprintf_ld)
qed

text \<open>Three objects, the last of size \<open>2^64 - 1\<close>, with the white space of a formatted
  document between them.\<close>

theorem bulk_manifest_round_trip_witness:
  "parse_bulk_objects
     (XML_ELEMENT_NODE ''Objects'' []
        [XML_TEXT_NODE [CHR 0x0A, CHR '' '', CHR '' ''],
         bulk_object_node \<lparr>bulk_object_name = Some ''a'', bulk_object_size = 10\<rparr>,
         XML_TEXT_NODE [CHR 0x0A, CHR '' '', CHR '' ''],
         bulk_object_node \<lparr>bulk_object_name = Some ''b'', bulk_object_size = 20\<rparr>,
         XML_TEXT_NODE [CHR 0x0A, CHR '' '', CHR '' ''],
         bulk_object_node \<lparr>bulk_object_name = Some ''c'', bulk_object_size = - 1\<rparr>,
         XML_TEXT_NODE [CHR 0x0A]]) =
   \<lparr>bulk_objects =
      [\<lparr>bulk_object_name = Some ''a'', bulk_object_size = 10\<rparr>,
       \<lparr>bulk_object_name = Some ''b'', bulk_object_size = 20\<rparr>,
       \<lparr>bulk_object_name = Some ''c'', bulk_object_size = - 1\<rparr>],
    server_id = None, chunk_number = 0\<rparr>"
proof -
  let ?l = "\<lparr>bulk_objects =
      [\<lparr>bulk_object_name = Some ''a'', bulk_object_size = 10\<rparr>,
       \<lparr>bulk_object_name = Some ''b'', bulk_object_size = 20\<rparr>,
       \<lparr>bulk_object_name = Some ''c'', bulk_object_size = - 1\<rparr>],
    server_id = None, chunk_number = 0\<rparr>"
  let ?cs = "[XML_TEXT_NODE [CHR 0x0A, CHR '' '', CHR '' ''],
         bulk_object_node \<lparr>bulk_object_name = Some ''a'', bulk_object_size = 10\<rparr>,
         XML_TEXT_NODE [CHR 0x0A, CHR '' '', CHR '' ''],
         bulk_object_node \<lparr>bulk_object_name = Some ''b'', bulk_object_size = 20\<rparr>,
         XML_TEXT_NODE [CHR 0x0A, CHR '' '', CHR '' ''],
         bulk_object_node \<lparr>bulk_object_name = Some ''c'', bulk_object_size = - 1\<rparr>,
         XML_TEXT_NODE [CHR 0x0A]]"
  have h: "filter (\<lambda>n. node_name n = ''Object'') ?cs = xmlChildrenNode (bulk_objects_node ?l)"
    by (simp add: bulk_objects_node_eq node_name_bulk_object_node)
  from bulk_manifest_round_trip [OF h] show ?thesis by simp
qed

end
